theory Spec2Isabelle
  imports Complex_Main "HOL-Library.Sublist"
begin

section \<open>Python values, exceptions and log lines\<close>

text \<open>
  The program is one Python module, \<^verbatim>\<open>etbay.py\<close>. Every exception class that one of its
  statements can raise is a constructor of \<open>py_error\<close>; \<open>RequestException\<close> stands for
  \<^verbatim>\<open>requests.RequestException\<close> and all of its subclasses (\<^verbatim>\<open>HTTPError\<close>,
  \<^verbatim>\<open>ConnectionError\<close>, \<^verbatim>\<open>Timeout\<close>), which is the only distinction the handlers make.
  \<open>IntegrityError\<close>, \<open>OperationalError\<close> and \<open>ProgrammingError\<close> are the errors of
  \<^verbatim>\<open>sqlite3\<close>.
\<close>

datatype py_error =
    AttributeError | TypeError | ValueError | KeyError | OverflowError
  | RequestException | IntegrityError | OperationalError | ProgrammingError

text \<open>
  Values as \<^verbatim>\<open>response.json()\<close> produces them: \<^verbatim>\<open>None\<close>, \<^verbatim>\<open>bool\<close>, \<^verbatim>\<open>int\<close>, \<^verbatim>\<open>float\<close>,
  \<^verbatim>\<open>str\<close>, \<^verbatim>\<open>list\<close> and \<^verbatim>\<open>dict\<close> (keys in insertion order). The type \<open>'f\<close> is the type
  of Python's floats; it is a parameter of the whole development.
\<close>

datatype 'f pyval =
    PNone
  | PBool bool
  | PInt int
  | PFloat 'f
  | PStr string
  | PList "'f pyval list"
  | PDict "(string \<times> 'f pyval) list"

text \<open>
  The builtins of Python that the module calls and that are not modelled bit by bit:
  \<^verbatim>\<open>float(s)\<close> on a \<^verbatim>\<open>str\<close> (\<open>None\<close> where it raises \<^verbatim>\<open>ValueError\<close>), \<^verbatim>\<open>float(i)\<close> on an
  \<^verbatim>\<open>int\<close> (\<open>None\<close> where it raises \<^verbatim>\<open>OverflowError\<close>), and the text that an f-string
  produces for a value that is not a \<^verbatim>\<open>str\<close>. The comparison \<^verbatim>\<open>a <= b\<close> of two floats is
  \<open>\<le>\<close> of the class \<open>ord\<close>, which has no laws, so that NaN is not excluded.
\<close>

record 'f python =
  float_str :: "string \<Rightarrow> 'f option"
  float_int :: "int \<Rightarrow> 'f option"
  format_other :: "'f pyval \<Rightarrow> string"

definition py_float :: "'f python \<Rightarrow> 'f pyval \<Rightarrow> py_error + 'f" where
  "py_float py v =
     (case v of
        PStr s \<Rightarrow> (case float_str py s of None \<Rightarrow> Inl ValueError | Some x \<Rightarrow> Inr x)
      | PFloat x \<Rightarrow> Inr x
      | PInt i \<Rightarrow> (case float_int py i of None \<Rightarrow> Inl OverflowError | Some x \<Rightarrow> Inr x)
      | PBool b \<Rightarrow>
          (case float_int py (if b then 1 else 0) of
             None \<Rightarrow> Inl OverflowError | Some x \<Rightarrow> Inr x)
      | PNone \<Rightarrow> Inl TypeError
      | PList _ \<Rightarrow> Inl TypeError
      | PDict _ \<Rightarrow> Inl TypeError)"

definition fstring :: "'f python \<Rightarrow> 'f pyval \<Rightarrow> string" where
  "fstring py v = (case v of PStr s \<Rightarrow> s | _ \<Rightarrow> format_other py v)"

text \<open>
  \<^verbatim>\<open>s.replace(c, '')\<close> for a one-character \<^verbatim>\<open>c\<close> deletes every occurrence of it.
\<close>

definition replace_char :: "char \<Rightarrow> string \<Rightarrow> string" where
  "replace_char c s = filter (\<lambda>d. d \<noteq> c) s"

text \<open>
  \<^verbatim>\<open>d.get(key, default)\<close> on a value: only a \<^verbatim>\<open>dict\<close> has the method.
\<close>

definition dict_get :: "'f pyval \<Rightarrow> string \<Rightarrow> 'f pyval \<Rightarrow> py_error + 'f pyval" where
  "dict_get d k dflt =
     (case d of
        PDict kvs \<Rightarrow> (case map_of kvs k of None \<Rightarrow> Inr dflt | Some v \<Rightarrow> Inr v)
      | _ \<Rightarrow> Inl AttributeError)"

text \<open>
  \<^verbatim>\<open>for item in v\<close>: the elements of a list, the characters of a string, the keys of a
  dict; any other value is not iterable.
\<close>

definition py_iter :: "'f pyval \<Rightarrow> py_error + 'f pyval list" where
  "py_iter v =
     (case v of
        PList xs \<Rightarrow> Inr xs
      | PStr s \<Rightarrow> Inr (map (\<lambda>c. PStr [c]) s)
      | PDict kvs \<Rightarrow> Inr (map (\<lambda>kv. PStr (fst kv)) kvs)
      | _ \<Rightarrow> Inl TypeError)"

datatype level = INFO | WARNING | ERROR

datatype log_arg = NoArg | ExcArg py_error | CountArg nat | TextArg string

text \<open>
  A log line: its level, the literal text of the message with \<^verbatim>\<open>{}\<close> where the source
  interpolates, and the interpolated value.
\<close>

datatype log_entry = Log level string log_arg

section \<open>The world: environment, network, log and database file\<close>

text \<open>
  A \<^verbatim>\<open>div.s-item__info\<close> node is seen through the four \<^verbatim>\<open>find\<close> queries the extractor
  makes on it; a tag through \<^verbatim>\<open>get_text()\<close>, \<^verbatim>\<open>get_text(strip=True)\<close> and its
  attributes.
\<close>

record tag =
  get_text :: string
  get_text_strip :: string
  attrs :: "(string \<times> string) list"

record listing_block =
  find_h3_title :: "tag option"
  find_span_price :: "tag option"
  find_a_link :: "tag option"
  find_div_subtitle :: "tag option"

text \<open>
  A response of \<^verbatim>\<open>requests.get\<close>: the status, the listing blocks that
  \<^verbatim>\<open>BeautifulSoup(response.text, 'html.parser').find_all('div', class_='s-item__info')\<close>
  yields in document order, and the outcome of \<^verbatim>\<open>response.json()\<close>.
\<close>

record 'f response =
  status_code :: nat
  soup_find_all :: "listing_block list"
  json :: "py_error + 'f pyval"

text \<open>
  One table of the database file: its columns (name, \<^verbatim>\<open>NOT NULL\<close>), its rows (surrogate id
  and one value per column, \<open>None\<close> for \<^verbatim>\<open>NULL\<close>) and the \<^verbatim>\<open>AUTOINCREMENT\<close> counter.
\<close>

record table =
  columns :: "(string \<times> bool) list"
  rows :: "(nat \<times> string option list) list"
  seq :: nat

type_synonym database = "(string \<times> table) list"

text \<open>
  The network answers the \<open>n\<close>-th request of the run (counted from 0) to a URL with a
  response or an exception.
\<close>

record 'f world =
  environ :: "string \<Rightarrow> string option"
  network :: "string \<Rightarrow> nat \<Rightarrow> py_error + 'f response"
  sent :: "string list"
  logged :: "log_entry list"
  disk :: database

definition logging :: "level \<Rightarrow> string \<Rightarrow> log_arg \<Rightarrow> 'f world \<Rightarrow> 'f world" where
  "logging lvl msg arg w = w\<lparr>logged := logged w @ [Log lvl msg arg]\<rparr>"

section \<open>The fetcher\<close>

definition requests_get :: "string \<Rightarrow> 'f world \<Rightarrow> (py_error + 'f response) \<times> 'f world" where
  "requests_get url w = (network w url (length (sent w)), w\<lparr>sent := sent w @ [url]\<rparr>)"

definition raise_for_status :: "'f response \<Rightarrow> py_error + unit" where
  "raise_for_status r =
     (if 400 \<le> status_code r \<and> status_code r < 600 then Inl RequestException else Inr ())"

text \<open>The body of \<^verbatim>\<open>fetch_url\<close>, without its decorator.\<close>

definition fetch_url_body :: "string \<Rightarrow> 'f world \<Rightarrow> (py_error + 'f response) \<times> 'f world" where
  "fetch_url_body url w =
     (case requests_get url w of
        (Inl e, w') \<Rightarrow> (Inl e, w')
      | (Inr response, w') \<Rightarrow>
          (case raise_for_status response of
             Inl e \<Rightarrow> (Inl e, w')
           | Inr _ \<Rightarrow> (Inr response, w')))"

text \<open>
  \<^verbatim>\<open>@retry(stop_max_attempt_number=3, wait_fixed=2000)\<close>: the call is repeated after every
  exception; the outcome of the last allowed attempt is final, result or exception. The
  first argument counts the attempts that may still follow the next one. The wait between
  attempts is not modelled.
\<close>

fun retry :: "nat \<Rightarrow> ('w \<Rightarrow> (py_error + 'a) \<times> 'w) \<Rightarrow> 'w \<Rightarrow> (py_error + 'a) \<times> 'w" where
  "retry 0 f w = f w"
| "retry (Suc k) f w =
     (case f w of
        (Inr r, w') \<Rightarrow> (Inr r, w')
      | (Inl e, w') \<Rightarrow> retry k f w')"

definition stop_max_attempt_number :: nat where
  "stop_max_attempt_number = 3"

definition fetch_url :: "string \<Rightarrow> 'f world \<Rightarrow> (py_error + 'f response) \<times> 'f world" where
  "fetch_url url w = retry (stop_max_attempt_number - 1) (fetch_url_body url) w"

section \<open>The two extractors\<close>

text \<open>
  An item of the result list: a dict with the keys \<^verbatim>\<open>title\<close>, \<^verbatim>\<open>price\<close>, \<^verbatim>\<open>link\<close> and
  \<^verbatim>\<open>description\<close>.
\<close>

record 'f item =
  item_title :: "'f pyval"
  item_price :: "'f pyval"
  item_link :: "'f pyval"
  item_description :: "'f pyval"

text \<open>
  Both extractors run the same loop: \<^verbatim>\<open>for item in xs: try: body except E as e:
  logging.warning(msg)\<close>. The body either appends one item (\<open>Some\<close>), appends nothing
  (\<open>None\<close>) or raises; an exception of a caught class is logged and the loop goes on with
  the next element, any other exception leaves the function at once.
\<close>

fun for_try ::
  "(py_error \<Rightarrow> bool) \<Rightarrow> string \<Rightarrow> ('x \<Rightarrow> py_error + 'r option) \<Rightarrow> 'x list \<Rightarrow> 'r list \<Rightarrow>
     'f world \<Rightarrow> (py_error + 'r list) \<times> 'f world" where
  "for_try caught msg body [] items w = (Inr items, w)"
| "for_try caught msg body (item # rest) items w =
     (case body item of
        Inl e \<Rightarrow>
          (if caught e
           then for_try caught msg body rest items (logging WARNING msg (ExcArg e) w)
           else (Inl e, w))
      | Inr None \<Rightarrow> for_try caught msg body rest items w
      | Inr (Some r) \<Rightarrow> for_try caught msg body rest (items @ [r]) w)"

subsection \<open>eBay\<close>

text \<open>
  Lines 62 to 65 and the \<^verbatim>\<open>find_all\<close> of line 71: the page is fetched and parsed into its
  listing blocks.
\<close>

definition ebay_page ::
  "string \<Rightarrow> 'f world \<Rightarrow> (py_error + listing_block list) \<times> 'f world" where
  "ebay_page search_query w =
     (let url = ''https://www.ebay.com/sch/i.html?_nkw='' @ search_query
      in case fetch_url url w of
           (Inl e, w1) \<Rightarrow> (Inl e, w1)
         | (Inr response, w1) \<Rightarrow> (Inr (soup_find_all response), w1))"

text \<open>
  Lines 74 and 75: the number of the price node, \<open>None\<close> without a node; \<^verbatim>\<open>float\<close> raises
  \<^verbatim>\<open>ValueError\<close> on a text that is not a number.
\<close>

definition ebay_price :: "'f python \<Rightarrow> listing_block \<Rightarrow> py_error + 'f option" where
  "ebay_price py item =
     (case find_span_price item of
        None \<Rightarrow> Inr None
      | Some price_text \<Rightarrow>
          (case float_str py
                  (replace_char (CHR '','') (replace_char (CHR ''$'') (get_text price_text))) of
             None \<Rightarrow> Inl ValueError
           | Some x \<Rightarrow> Inr (Some x)))"

text \<open>Line 79: \<^verbatim>\<open>max_price is None or (price is not None and price <= max_price)\<close>.\<close>

definition ebay_keep :: "('f::ord) option \<Rightarrow> 'f option \<Rightarrow> bool" where
  "ebay_keep max_price price =
     (case max_price of
        None \<Rightarrow> True
      | Some m \<Rightarrow> (case price of None \<Rightarrow> False | Some p \<Rightarrow> p \<le> m))"

text \<open>
  The body of the \<^verbatim>\<open>try\<close>, lines 73 to 85, in the order of evaluation: the title (a missing
  node is \<^verbatim>\<open>None\<close>, which has no \<^verbatim>\<open>get_text\<close>: \<^verbatim>\<open>AttributeError\<close>), the price, the link
  (\<^verbatim>\<open>None['href']\<close> is a \<^verbatim>\<open>TypeError\<close>, a tag without the attribute a \<^verbatim>\<open>KeyError\<close>), the
  description, the test of the ceiling and the dict that is appended.
\<close>

definition ebay_try ::
  "('f::ord) python \<Rightarrow> 'f option \<Rightarrow> listing_block \<Rightarrow> py_error + 'f item option" where
  "ebay_try py max_price item =
     (case find_h3_title item of
        None \<Rightarrow> Inl AttributeError
      | Some h3 \<Rightarrow>
          (case ebay_price py item of
             Inl e \<Rightarrow> Inl e
           | Inr price \<Rightarrow>
               (case find_a_link item of
                  None \<Rightarrow> Inl TypeError
                | Some a \<Rightarrow>
                    (case map_of (attrs a) ''href'' of
                       None \<Rightarrow> Inl KeyError
                     | Some link \<Rightarrow>
                         (let description =
                                (case find_div_subtitle item of
                                   Some d \<Rightarrow> get_text_strip d
                                 | None \<Rightarrow> ''N/A'')
                          in if ebay_keep max_price price
                             then Inr (Some
                                    \<lparr>item_title = PStr (get_text_strip h3),
                                     item_price =
                                       PStr (case find_span_price item of
                                               Some price_text \<Rightarrow> get_text price_text
                                             | None \<Rightarrow> ''N/A''),
                                     item_link = PStr link,
                                     item_description = PStr description\<rparr>)
                             else Inr None)))))"

definition find_ebay_items ::
  "('f::ord) python \<Rightarrow> string \<Rightarrow> 'f option \<Rightarrow> 'f world \<Rightarrow> (py_error + 'f item list) \<times> 'f world" where
  "find_ebay_items py search_query max_price w =
     (case ebay_page search_query w of
        (Inl e, w1) \<Rightarrow>
          (if e = RequestException
           then (Inr [], logging ERROR ''Failed to retrieve eBay items: {}'' (ExcArg e) w1)
           else (Inl e, w1))
      | (Inr blocks, w1) \<Rightarrow>
          (case for_try (\<lambda>e. e = AttributeError) ''Error parsing eBay item data: {}''
                  (ebay_try py max_price) blocks [] w1 of
             (Inl e, w2) \<Rightarrow> (Inl e, w2)
           | (Inr items, w2) \<Rightarrow>
               (Inr items,
                logging INFO ''Found {} items on eBay.'' (CountArg (length items)) w2)))"

subsection \<open>Etsy\<close>

text \<open>
  Lines 99 to 102: the request with the API key and the decoding of its answer.
\<close>

definition etsy_data ::
  "string \<Rightarrow> string \<Rightarrow> 'f world \<Rightarrow> (py_error + 'f pyval) \<times> 'f world" where
  "etsy_data api_key search_query w =
     (let url = ''https://openapi.etsy.com/v2/listings/active?api_key='' @ api_key
                  @ ''&keywords='' @ search_query @ ''&limit=10''
      in case fetch_url url w of
           (Inl e, w1) \<Rightarrow> (Inl e, w1)
         | (Inr response, w1) \<Rightarrow> (json response, w1))"

text \<open>
  Line 115: \<^verbatim>\<open>max_price is None or (price != 'N/A' and float(price) <= max_price)\<close>, with
  Python's left-to-right, short-circuit evaluation: \<^verbatim>\<open>float\<close> is called only when a ceiling
  is given and the price is not \<^verbatim>\<open>'N/A'\<close>.
\<close>

definition etsy_keep :: "('f::ord) python \<Rightarrow> 'f option \<Rightarrow> 'f pyval \<Rightarrow> py_error + bool" where
  "etsy_keep py max_price price =
     (case max_price of
        None \<Rightarrow> Inr True
      | Some m \<Rightarrow>
          (if price \<noteq> PStr ''N/A''
           then (case py_float py price of Inl e \<Rightarrow> Inl e | Inr x \<Rightarrow> Inr (x \<le> m))
           else Inr False))"

text \<open>
  The body of the \<^verbatim>\<open>try\<close>, lines 110 to 121: four \<^verbatim>\<open>item.get(key, 'N/A')\<close>, the test of the
  ceiling and the dict that is appended, its price \<^verbatim>\<open>f'${price}'\<close>.
\<close>

definition etsy_try ::
  "('f::ord) python \<Rightarrow> 'f option \<Rightarrow> 'f pyval \<Rightarrow> py_error + 'f item option" where
  "etsy_try py max_price item =
     (case dict_get item ''title'' (PStr ''N/A'') of
        Inl e \<Rightarrow> Inl e
      | Inr title \<Rightarrow>
          (case dict_get item ''price'' (PStr ''N/A'') of
             Inl e \<Rightarrow> Inl e
           | Inr price \<Rightarrow>
               (case dict_get item ''url'' (PStr ''N/A'') of
                  Inl e \<Rightarrow> Inl e
                | Inr link \<Rightarrow>
                    (case dict_get item ''description'' (PStr ''N/A'') of
                       Inl e \<Rightarrow> Inl e
                     | Inr description \<Rightarrow>
                         (case etsy_keep py max_price price of
                            Inl e \<Rightarrow> Inl e
                          | Inr keep \<Rightarrow>
                              (if keep
                               then Inr (Some
                                      \<lparr>item_title = title,
                                       item_price = PStr (''$'' @ fstring py price),
                                       item_link = link,
                                       item_description = description\<rparr>)
                               else Inr None))))))"

definition find_etsy_items ::
  "('f::ord) python \<Rightarrow> string \<Rightarrow> 'f option \<Rightarrow> 'f world \<Rightarrow> (py_error + 'f item list) \<times> 'f world" where
  "find_etsy_items py search_query max_price w =
     (case (case environ w ''ETSY_API_KEY'' of
              None \<Rightarrow> None
            | Some k \<Rightarrow> if k = [] then None else Some k) of
        None \<Rightarrow>
          (Inr [],
           logging ERROR
             ''Etsy API key not found. Please set the ETSY_API_KEY environment variable.'' NoArg w)
      | Some api_key \<Rightarrow>
          (case etsy_data api_key search_query w of
             (Inl e, w1) \<Rightarrow>
               (if e = RequestException
                then (Inr [], logging ERROR ''Failed to retrieve Etsy items: {}'' (ExcArg e) w1)
                else (Inl e, w1))
           | (Inr data, w1) \<Rightarrow>
               (case dict_get data ''results'' (PList []) of
                  Inl e \<Rightarrow> (Inl e, w1)
                | Inr results \<Rightarrow>
                    (case py_iter results of
                       Inl e \<Rightarrow> (Inl e, w1)
                     | Inr xs \<Rightarrow>
                         (case for_try (\<lambda>e. e = TypeError \<or> e = ValueError)
                                 ''Error parsing Etsy item data: {}''
                                 (etsy_try py max_price) xs [] w1 of
                            (Inl e, w2) \<Rightarrow> (Inl e, w2)
                          | (Inr items, w2) \<Rightarrow>
                              (Inr items,
                               logging INFO ''Found {} items on Etsy.''
                                 (CountArg (length items)) w2))))))"

section \<open>The record store\<close>

text \<open>
  The two SQL statements of the module, on the content of a database. \<^verbatim>\<open>CREATE TABLE IF NOT
  EXISTS\<close> leaves a database that has a table of that name as it is. \<^verbatim>\<open>INSERT\<close> needs the
  table, refuses \<^verbatim>\<open>NULL\<close> in a \<^verbatim>\<open>NOT NULL\<close> column, and gives the row the next id of the
  \<^verbatim>\<open>AUTOINCREMENT\<close> counter.
\<close>

definition create_table_if_not_exists :: "string \<Rightarrow> (string \<times> bool) list \<Rightarrow> database \<Rightarrow> database" where
  "create_table_if_not_exists name cols db =
     (if name \<in> set (map fst db) then db
      else db @ [(name, \<lparr>columns = cols, rows = [], seq = 0\<rparr>)])"

definition insert_into :: "string \<Rightarrow> string option list \<Rightarrow> database \<Rightarrow> py_error + database" where
  "insert_into name vals db =
     (case map_of db name of
        None \<Rightarrow> Inl OperationalError
      | Some t \<Rightarrow>
          (if list_ex (\<lambda>cv. snd (fst cv) \<and> snd cv = None) (zip (columns t) vals)
           then Inl IntegrityError
           else Inr (map (\<lambda>nt. if fst nt = name
                                 then (name, t\<lparr>rows := rows t @ [(seq t + 1, vals)], seq := seq t + 1\<rparr>)
                                 else nt) db)))"

text \<open>The columns of lines 34 to 42, without the surrogate \<^verbatim>\<open>id\<close>.\<close>

definition listings_columns :: "(string \<times> bool) list" where
  "listings_columns =
     [(''platform'', True), (''title'', True), (''price'', False),
      (''link'', True), (''description'', False), (''notes'', False)]"

text \<open>
  A \<^verbatim>\<open>DatabaseManager\<close> object is its \<^verbatim>\<open>sqlite3\<close> connection: the content of the database
  inside the open transaction (\<open>None\<close> when no transaction is open) and whether the
  connection has been closed. \<^verbatim>\<open>sqlite3\<close> opens a transaction before an \<^verbatim>\<open>INSERT\<close> and not
  before a \<^verbatim>\<open>CREATE TABLE\<close>; what is written outside a transaction is on disk at once. An
  \<^verbatim>\<open>INSERT\<close> into a missing table fails when the statement is prepared
  (\<^verbatim>\<open>OperationalError\<close>), before the transaction is opened; a violated constraint fails
  when the statement runs (\<^verbatim>\<open>IntegrityError\<close>), inside the transaction just opened.
\<close>

record connection =
  transaction :: "database option"
  is_closed :: bool

definition snapshot :: "connection \<Rightarrow> 'f world \<Rightarrow> database" where
  "snapshot self w = (case transaction self of None \<Rightarrow> disk w | Some d \<Rightarrow> d)"

definition DatabaseManager_enter :: connection where
  "DatabaseManager_enter = \<lparr>transaction = None, is_closed = False\<rparr>"

definition DatabaseManager_exit ::
  "connection \<Rightarrow> py_error option \<Rightarrow> 'f world \<Rightarrow> (py_error + unit) \<times> connection \<times> 'f world" where
  "DatabaseManager_exit self exc_val w =
     (let w1 = (case exc_val of
                  Some e \<Rightarrow> logging ERROR ''Database operation failed'' (ExcArg e) w
                | None \<Rightarrow> w)
      in if is_closed self then (Inl ProgrammingError, self, w1)
         else (Inr (), self\<lparr>transaction := None, is_closed := True\<rparr>, w1\<lparr>disk := snapshot self w1\<rparr>))"

definition setup_database ::
  "connection \<Rightarrow> 'f world \<Rightarrow> (py_error + unit) \<times> connection \<times> 'f world" where
  "setup_database self w =
     (let w1 = logging INFO ''Setting up the database.'' NoArg w
      in if is_closed self then (Inl ProgrammingError, self, w1)
         else (case transaction self of
                 None \<Rightarrow>
                   (Inr (), self,
                    w1\<lparr>disk := create_table_if_not_exists ''listings'' listings_columns (disk w1)\<rparr>)
               | Some d \<Rightarrow>
                   (Inr (),
                    self\<lparr>transaction :=
                           Some (create_table_if_not_exists ''listings'' listings_columns d)\<rparr>,
                    w1)))"

definition save_to_database ::
  "connection \<Rightarrow> string option \<Rightarrow> string option \<Rightarrow> string option \<Rightarrow> string option \<Rightarrow>
     string option \<Rightarrow> string option \<Rightarrow> 'f world \<Rightarrow> (py_error + unit) \<times> connection \<times> 'f world" where
  "save_to_database self platform title price link description notes w =
     (let w1 = logging INFO ''Saving item '{}' to the database.''
                 (TextArg (case title of Some t \<Rightarrow> t | None \<Rightarrow> ''None'')) w
      in if is_closed self then (Inl ProgrammingError, self, w1)
         else (case insert_into ''listings'' [platform, title, price, link, description, notes]
                      (snapshot self w1) of
                 Inl e \<Rightarrow>
                   (Inl e,
                    (if e = OperationalError then self
                     else self\<lparr>transaction := Some (snapshot self w1)\<rparr>),
                    w1)
               | Inr d \<Rightarrow> (Inr (), self\<lparr>transaction := Some d\<rparr>, w1)))"

text \<open>
  \<^verbatim>\<open>with DatabaseManager() as db: body\<close>. \<^verbatim>\<open>__exit__\<close> returns \<^verbatim>\<open>None\<close>, so an exception of
  the body goes on to the caller after it.
\<close>

definition with_DatabaseManager ::
  "(connection \<Rightarrow> 'f world \<Rightarrow> (py_error + 'a) \<times> connection \<times> 'f world) \<Rightarrow> 'f world \<Rightarrow>
     (py_error + 'a) \<times> 'f world" where
  "with_DatabaseManager body w =
     (case body DatabaseManager_enter w of
        (r, db, w1) \<Rightarrow>
          (case DatabaseManager_exit db (case r of Inl e \<Rightarrow> Some e | Inr _ \<Rightarrow> None) w1 of
             (Inl e', db', w2) \<Rightarrow> (Inl e', w2)
           | (Inr _, db', w2) \<Rightarrow> (r, w2)))"

text \<open>
  The calls that \<^verbatim>\<open>main\<close> makes on the store inside the \<^verbatim>\<open>with\<close> block, one after the other;
  the first exception ends the block.
\<close>

datatype db_call =
    Setup
  | Save "string option" "string option" "string option" "string option" "string option"
      "string option"

fun db_calls ::
  "db_call list \<Rightarrow> connection \<Rightarrow> 'f world \<Rightarrow> (py_error + unit) \<times> connection \<times> 'f world" where
  "db_calls [] self w = (Inr (), self, w)"
| "db_calls (c # cs) self w =
     (case (case c of
              Setup \<Rightarrow> setup_database self w
            | Save platform title price link description notes \<Rightarrow>
                save_to_database self platform title price link description notes w) of
        (Inl e, self', w') \<Rightarrow> (Inl e, self', w')
      | (Inr _, self', w') \<Rightarrow> db_calls cs self' w')"

section \<open>Notions of the specification\<close>

text \<open>
  What a run of the loop appends and what it logs, read off the outcomes of the body on the
  elements: one item for every element on which the body appends, one warning for every
  element on which it raises.
\<close>

definition appends :: "('x \<Rightarrow> py_error + 'r option) \<Rightarrow> 'x list \<Rightarrow> 'r list" where
  "appends body xs =
     List.map_filter (\<lambda>x. case body x of Inr (Some r) \<Rightarrow> Some r | _ \<Rightarrow> None) xs"

definition warnings :: "string \<Rightarrow> ('x \<Rightarrow> py_error + 'r option) \<Rightarrow> 'x list \<Rightarrow> log_entry list" where
  "warnings msg body xs =
     List.map_filter
       (\<lambda>x. case body x of Inl e \<Rightarrow> Some (Log WARNING msg (ExcArg e)) | _ \<Rightarrow> None) xs"


text \<open>
  The price of a result object, \<^verbatim>\<open>item.get('price', 'N/A')\<close>, and the exception that
  \<^verbatim>\<open>float\<close> raises on it when it is not the sentinel \<^verbatim>\<open>'N/A'\<close>, if any.
\<close>

definition etsy_price :: "'f pyval \<Rightarrow> 'f pyval" where
  "etsy_price x = (case dict_get x ''price'' (PStr ''N/A'') of Inr p \<Rightarrow> p | Inl e \<Rightarrow> PStr ''N/A'')"

definition etsy_price_error :: "'f python \<Rightarrow> 'f pyval \<Rightarrow> py_error option" where
  "etsy_price_error py x =
     (if etsy_price x = PStr ''N/A'' then None
      else (case py_float py (etsy_price x) of Inl e \<Rightarrow> Some e | Inr p \<Rightarrow> None))"

text \<open>
  The content of a database after a sequence of calls on the store, each applied to the
  content the one before left; a failed call ends the sequence.
\<close>

fun written :: "db_call list \<Rightarrow> database \<Rightarrow> database" where
  "written [] d = d"
| "written (Setup # cs) d = written cs (create_table_if_not_exists ''listings'' listings_columns d)"
| "written (Save platform title price link description notes # cs) d =
     (case insert_into ''listings'' [platform, title, price, link, description, notes] d of
        Inl e \<Rightarrow> d
      | Inr d' \<Rightarrow> written cs d')"

section \<open>Concrete inputs\<close>

text \<open>
  An instance of the builtins for the examples, with the rationals as floats. Its
  \<^verbatim>\<open>float\<close> reads the unsigned decimal literals \<^verbatim>\<open>12\<close>, \<^verbatim>\<open>45.00\<close>, \<^verbatim>\<open>.5\<close> and refuses every
  other text, as Python does for the texts of the examples (Python also reads signs,
  exponents, padding, \<^verbatim>\<open>inf\<close> and \<^verbatim>\<open>nan\<close>, which no example uses). It renders \<^verbatim>\<open>None\<close> and the
  booleans; numbers and containers are not rendered and no example formats one.
\<close>

definition digit_of :: "char \<Rightarrow> nat option" where
  "digit_of c =
     (let n = of_char c in if 48 \<le> n \<and> n \<le> (57::nat) then Some (n - 48) else None)"

fun digits_value :: "nat \<Rightarrow> string \<Rightarrow> nat option" where
  "digits_value acc [] = Some acc"
| "digits_value acc (c # cs) =
     (case digit_of c of None \<Rightarrow> None | Some d \<Rightarrow> digits_value (10 * acc + d) cs)"

definition decimal_literal :: "string \<Rightarrow> rat option" where
  "decimal_literal s =
     (let ip = takeWhile (\<lambda>c. c \<noteq> CHR ''.'') s;
          fp = drop 1 (dropWhile (\<lambda>c. c \<noteq> CHR ''.'') s)
      in if ip = [] \<and> fp = [] then None
         else (case digits_value 0 ip of
                 None \<Rightarrow> None
               | Some i \<Rightarrow>
                   (case digits_value 0 fp of
                      None \<Rightarrow> None
                    | Some f \<Rightarrow> Some (of_nat i + of_nat f / 10 ^ length fp))))"

definition example_python :: "rat python" where
  "example_python =
     \<lparr>float_str = decimal_literal,
      float_int = (\<lambda>i. Some (of_int i)),
      format_other =
        (\<lambda>v. case v of
                PNone \<Rightarrow> ''None''
              | PBool b \<Rightarrow> (if b then ''True'' else ''False'')
              | _ \<Rightarrow> [])\<rparr>"

definition text_tag :: "string \<Rightarrow> tag" where
  "text_tag s = \<lparr>get_text = s, get_text_strip = s, attrs = []\<rparr>"

definition anchor :: "string \<Rightarrow> tag" where
  "anchor href = \<lparr>get_text = [], get_text_strip = [], attrs = [(''href'', href)]\<rparr>"

text \<open>
  The listing of the specification's example, and variants of it: without a price node,
  without a title node, without a link, with a price range, with an empty title.
\<close>

definition lamp :: listing_block where
  "lamp =
     \<lparr>find_h3_title = Some (text_tag ''Vintage Lamp''),
      find_span_price = Some (text_tag ''$45.00''),
      find_a_link = Some (anchor ''http://x/1''),
      find_div_subtitle = None\<rparr>"

definition lamp_no_price :: listing_block where
  "lamp_no_price = lamp\<lparr>find_span_price := None\<rparr>"

definition lamp_no_title :: listing_block where
  "lamp_no_title = lamp\<lparr>find_h3_title := None\<rparr>"

definition lamp_no_link :: listing_block where
  "lamp_no_link = lamp\<lparr>find_a_link := None\<rparr>"

definition lamp_price_range :: listing_block where
  "lamp_price_range = lamp\<lparr>find_span_price := Some (text_tag ''$10.00 to $20.00'')\<rparr>"

definition lamp_empty_title :: listing_block where
  "lamp_empty_title = lamp\<lparr>find_h3_title := Some (text_tag [])\<rparr>"

text \<open>A second listing, with another title, price and link, and a subtitle.\<close>

definition desk :: listing_block where
  "desk =
     \<lparr>find_h3_title = Some (text_tag ''Desk''),
      find_span_price = Some (text_tag ''$9.00''),
      find_a_link = Some (anchor ''http://x/3''),
      find_div_subtitle = Some (text_tag ''Oak'')\<rparr>"

text \<open>
  The payload of the specification's example,
  \<^verbatim>\<open>{"results":[{"title":"Mug","price":"12","url":"http://y/2"}]}\<close>, and a result object with
  the price \<^verbatim>\<open>abc\<close>.
\<close>

definition mug :: "'f pyval" where
  "mug = PDict [(''title'', PStr ''Mug''), (''price'', PStr ''12''), (''url'', PStr ''http://y/2'')]"

definition mug_payload :: "'f pyval" where
  "mug_payload = PDict [(''results'', PList [mug])]"

definition mug_abc :: "'f pyval" where
  "mug_abc = PDict [(''title'', PStr ''Mug''), (''price'', PStr ''abc''), (''url'', PStr ''http://y/2'')]"

text \<open>A second result object, with another title and price and without a link.\<close>

definition bowl :: "'f pyval" where
  "bowl = PDict [(''title'', PStr ''Bowl''), (''price'', PStr ''7.50'')]"

text \<open>
  A world whose network gives every request the same answer; a response with a page of
  listing blocks; a response with a JSON payload.
\<close>

definition answering :: "(string \<Rightarrow> string option) \<Rightarrow> (py_error + rat response) \<Rightarrow> rat world" where
  "answering env r =
     \<lparr>environ = env, network = (\<lambda>url n. r), sent = [], logged = [], disk = []\<rparr>"

definition page :: "listing_block list \<Rightarrow> py_error + rat response" where
  "page blocks = Inr \<lparr>status_code = 200, soup_find_all = blocks, json = Inl RequestException\<rparr>"

definition payload :: "rat pyval \<Rightarrow> py_error + rat response" where
  "payload data = Inr \<lparr>status_code = 200, soup_find_all = [], json = Inr data\<rparr>"

definition with_key :: "string \<Rightarrow> string option" where
  "with_key = Map.empty(''ETSY_API_KEY'' \<mapsto> ''k'')"

section \<open>Lemmas on the loop, the fetcher and the store\<close>

lemma appends_Nil: "appends body [] = []"
  by (simp add: appends_def List.map_filter_simps)

lemma appends_Cons:
  "appends body (x # xs) = (case body x of Inr (Some r) \<Rightarrow> [r] | _ \<Rightarrow> []) @ appends body xs"
  by (simp add: appends_def List.map_filter_simps split: sum.split option.split)

lemma warnings_Nil: "warnings msg body [] = []"
  by (simp add: warnings_def List.map_filter_simps)

lemma warnings_Cons:
  "warnings msg body (x # xs) =
     (case body x of Inl e \<Rightarrow> [Log WARNING msg (ExcArg e)] | _ \<Rightarrow> []) @ warnings msg body xs"
  by (simp add: warnings_def List.map_filter_simps split: sum.split option.split)

lemma set_appends: "r \<in> set (appends body xs) \<longleftrightarrow> (\<exists>x\<in>set xs. body x = Inr (Some r))"
  by (induction xs) (auto simp: appends_Nil appends_Cons split: sum.splits option.splits)

lemma logged_logging: "logged (logging lvl msg arg w) = logged w @ [Log lvl msg arg]"
  by (simp add: logging_def)

lemma for_try_total:
  "\<forall>x\<in>set xs. \<forall>e. body x = Inl e \<longrightarrow> caught e \<Longrightarrow>
   for_try caught msg body xs items w =
     (Inr (items @ appends body xs), w\<lparr>logged := logged w @ warnings msg body xs\<rparr>)"
proof (induction xs arbitrary: items w)
  case Nil
  then show ?case by (simp add: appends_Nil warnings_Nil)
next
  case (Cons x xs)
  have rest: "\<forall>y\<in>set xs. \<forall>e. body y = Inl e \<longrightarrow> caught e"
    using Cons.prems by auto
  show ?case
  proof (cases "body x")
    case (Inl e)
    then have "caught e" using Cons.prems by auto
    with Inl show ?thesis
      by (simp add: Cons.IH [OF rest] appends_Cons warnings_Cons logging_def)
  next
    case (Inr r)
    then show ?thesis
      by (cases r) (simp_all add: Cons.IH [OF rest] appends_Cons warnings_Cons)
  qed
qed

lemma for_try_Inl:
  "for_try caught msg body xs items w = (Inl e, w') \<Longrightarrow> \<exists>x\<in>set xs. body x = Inl e \<and> \<not> caught e"
proof (induction xs arbitrary: items w)
  case Nil
  then show ?case by simp
next
  case (Cons x xs)
  then show ?case
    by (auto split: sum.splits option.splits if_splits)
qed

lemma for_try_caught:
  "for_try caught msg body xs items w = (Inr out, w') \<Longrightarrow>
   \<forall>x\<in>set xs. \<forall>e. body x = Inl e \<longrightarrow> caught e"
proof (induction xs arbitrary: items w)
  case Nil
  then show ?case by simp
next
  case (Cons x xs)
  then show ?case
    by (auto split: sum.splits option.splits if_splits)
qed

lemma for_try_Inr:
  assumes "for_try caught msg body xs items w = (Inr out, w')"
  shows "out = items @ appends body xs \<and> w' = w\<lparr>logged := logged w @ warnings msg body xs\<rparr>"
  using assms for_try_total [OF for_try_caught [OF assms], of msg items w] by simp

lemma retry_frame:
  assumes "\<And>w. f (upd w) = (case f w of (r, w') \<Rightarrow> (r, upd w'))"
  shows "retry k f (upd w) = (case retry k f w of (r, w') \<Rightarrow> (r, upd w'))"
proof (induction k arbitrary: w)
  case 0
  then show ?case by (simp add: assms)
next
  case (Suc k)
  then show ?case
    by (simp add: assms split: prod.split sum.split)
qed

lemma fetch_url_environ:
  "fetch_url url (w\<lparr>environ := env\<rparr>) =
     (case fetch_url url w of (r, w') \<Rightarrow> (r, w'\<lparr>environ := env\<rparr>))"
  unfolding fetch_url_def
  by (rule retry_frame)
     (simp add: fetch_url_body_def requests_get_def split: sum.split)

lemma logging_environ:
  "logging lvl msg arg (w\<lparr>environ := env\<rparr>) = (logging lvl msg arg w)\<lparr>environ := env\<rparr>"
  by (simp add: logging_def)

lemma for_try_environ:
  "for_try caught msg body xs items (w\<lparr>environ := env\<rparr>) =
     (case for_try caught msg body xs items w of (r, w') \<Rightarrow> (r, w'\<lparr>environ := env\<rparr>))"
  by (induction xs arbitrary: items w)
     (simp_all add: logging_environ split: sum.split option.split)

lemmas ex_defs = answering_def page_def payload_def with_key_def lamp_def lamp_no_price_def
  lamp_no_title_def lamp_no_link_def lamp_price_range_def lamp_empty_title_def text_tag_def
  anchor_def mug_def mug_payload_def mug_abc_def example_python_def decimal_literal_def
  digit_of_def desk_def bowl_def

lemmas run_defs = find_ebay_items_def find_etsy_items_def ebay_page_def etsy_data_def
  fetch_url_def stop_max_attempt_number_def fetch_url_body_def requests_get_def
  raise_for_status_def ebay_try_def ebay_price_def ebay_keep_def etsy_try_def etsy_keep_def
  py_float_def fstring_def dict_get_def py_iter_def replace_char_def logging_def numeral_2_eq_2

section \<open>The missing Etsy credential\<close>

text \<open>
  Claim C5. For every query and every price ceiling, when the Etsy API credential is absent
  from the environment (unset, or set to the empty string, which the test \<^verbatim>\<open>not api_key\<close>
  treats alike), \<^verbatim>\<open>find_etsy_items\<close> returns the empty list and logs one error; the only
  change of the world is that log line, so no request has been sent. \<^verbatim>\<open>find_ebay_items\<close>
  does not read the environment: whatever it is replaced with, the result, the requests and
  the log are the same.
\<close>

theorem etsy_missing_credential:
  "environ w ''ETSY_API_KEY'' = None \<or> environ w ''ETSY_API_KEY'' = Some [] \<longrightarrow>
     find_etsy_items py q mp w =
       (Inr [],
        logging ERROR
          ''Etsy API key not found. Please set the ETSY_API_KEY environment variable.'' NoArg w)
     \<and> sent (snd (find_etsy_items py q mp w)) = sent w
     \<and> find_ebay_items py q mp (w\<lparr>environ := env\<rparr>) =
         (case find_ebay_items py q mp w of (r, w') \<Rightarrow> (r, w'\<lparr>environ := env\<rparr>))"
proof -
  have ebay: "find_ebay_items py q mp (w\<lparr>environ := env\<rparr>) =
         (case find_ebay_items py q mp w of (r, w') \<Rightarrow> (r, w'\<lparr>environ := env\<rparr>))"
    by (simp add: find_ebay_items_def ebay_page_def fetch_url_environ for_try_environ
          logging_environ split: prod.split sum.split)
  show ?thesis
    by (auto simp: find_etsy_items_def logging_def ebay)
qed

theorem etsy_missing_credential_witness:
  "find_etsy_items example_python ''lamp'' (Some 50) (answering Map.empty (page [lamp])) =
     (Inr [],
      (answering Map.empty (page [lamp]))
        \<lparr>logged := [Log ERROR
           ''Etsy API key not found. Please set the ETSY_API_KEY environment variable.'' NoArg]\<rparr>)
   \<and> sent (snd (find_etsy_items example_python ''lamp'' (Some 50)
                  (answering Map.empty (page [lamp])))) = []
   \<and> fst (find_ebay_items example_python ''lamp'' (Some 50)
            ((answering Map.empty (page [lamp]))\<lparr>environ := with_key\<rparr>)) =
       Inr [\<lparr>item_title = PStr ''Vintage Lamp'', item_price = PStr ''$45.00'',
             item_link = PStr ''http://x/1'', item_description = PStr ''N/A''\<rparr>]"
proof -
  have h: "environ (answering Map.empty (page [lamp])) ''ETSY_API_KEY'' = None"
    by (simp add: answering_def)
  have e: "fst (find_ebay_items example_python ''lamp'' (Some 50)
                  (answering Map.empty (page [lamp]))) =
       Inr [\<lparr>item_title = PStr ''Vintage Lamp'', item_price = PStr ''$45.00'',
             item_link = PStr ''http://x/1'', item_description = PStr ''N/A''\<rparr>]"
    by (simp add: run_defs ex_defs)
  show ?thesis
    using etsy_missing_credential
            [where w = "answering Map.empty (page [lamp])" and py = example_python
               and q = "''lamp''" and mp = "Some 50" and env = with_key] h e
    by (simp add: logging_def answering_def split: prod.splits)
qed

section \<open>The example of the Etsy payload\<close>

text \<open>
  Claim C9. For the payload \<^verbatim>\<open>{"results":[{"title":"Mug","price":"12","url":"http://y/2"}]}\<close>
  and no ceiling, \<^verbatim>\<open>find_etsy_items\<close> returns exactly one record: title \<^verbatim>\<open>Mug\<close>, price
  \<^verbatim>\<open>$12\<close> (the currency symbol before the raw price), link \<^verbatim>\<open>http://y/2\<close>, and the description
  defaulted to \<^verbatim>\<open>N/A\<close>. This holds for every query, every instance of the builtins and every
  world in which the credential is set and the request is answered with that payload.
\<close>

theorem etsy_mug_example:
  "environ w ''ETSY_API_KEY'' = Some k \<and> k \<noteq> [] \<and> etsy_data k q w = (Inr mug_payload, w1) \<longrightarrow>
     find_etsy_items py q None w =
       (Inr [\<lparr>item_title = PStr ''Mug'', item_price = PStr ''$12'',
              item_link = PStr ''http://y/2'', item_description = PStr ''N/A''\<rparr>],
        logging INFO ''Found {} items on Etsy.'' (CountArg 1) w1)"
  by (simp add: find_etsy_items_def mug_payload_def mug_def dict_get_def py_iter_def
        etsy_try_def etsy_keep_def fstring_def)

theorem etsy_mug_example_witness:
  "find_etsy_items example_python ''mug'' None (answering with_key (payload mug_payload)) =
     (Inr [\<lparr>item_title = PStr ''Mug'', item_price = PStr ''$12'',
            item_link = PStr ''http://y/2'', item_description = PStr ''N/A''\<rparr>],
      (answering with_key (payload mug_payload))
        \<lparr>sent := [''https://openapi.etsy.com/v2/listings/active?api_key=k&keywords=mug&limit=10''],
         logged := [Log INFO ''Found {} items on Etsy.'' (CountArg 1)]\<rparr>)"
proof -
  let ?w = "answering with_key (payload mug_payload)"
  let ?w1 = "?w\<lparr>sent :=
    [''https://openapi.etsy.com/v2/listings/active?api_key=k&keywords=mug&limit=10'']\<rparr>"
  have k: "environ ?w ''ETSY_API_KEY'' = Some ''k''"
    by (simp add: answering_def with_key_def)
  have d: "etsy_data ''k'' ''mug'' ?w = (Inr mug_payload, ?w1)"
    by (simp add: etsy_data_def fetch_url_def stop_max_attempt_number_def fetch_url_body_def
          requests_get_def raise_for_status_def answering_def payload_def numeral_2_eq_2)
  show ?thesis
    using etsy_mug_example [of ?w "''k''" "''mug''" ?w1 example_python] k d
    by (simp add: logging_def answering_def)
qed

section \<open>Exceptions that reach the caller\<close>

text \<open>
  Claim C3 reads: the extraction functions never raise to the caller. The handlers of the
  two loops differ: the eBay loop catches \<^verbatim>\<open>AttributeError\<close> only, the Etsy loop
  \<^verbatim>\<open>TypeError\<close> and \<^verbatim>\<open>ValueError\<close> only, and the decoding of the payload's shape stands
  outside any handler. The theorem runs both functions on four inputs: a page whose first
  listing has no link (\<^verbatim>\<open>None['href']\<close>, a \<^verbatim>\<open>TypeError\<close>), a page whose first listing shows
  the price range \<^verbatim>\<open>$10.00 to $20.00\<close> (\<^verbatim>\<open>float\<close> raises \<^verbatim>\<open>ValueError\<close>), a payload that is
  the JSON array \<^verbatim>\<open>[]\<close> and a payload whose results hold the string \<^verbatim>\<open>"Mug"\<close> (neither has a
  method \<^verbatim>\<open>get\<close>: \<^verbatim>\<open>AttributeError\<close>). In each the exception leaves the function.
\<close>

theorem extractors_raise:
  "fst (find_ebay_items example_python ''lamp'' None
          (answering Map.empty (page [lamp_no_link, lamp]))) = Inl TypeError
   \<and> fst (find_ebay_items example_python ''lamp'' None
            (answering Map.empty (page [lamp_price_range, lamp]))) = Inl ValueError
   \<and> fst (find_etsy_items example_python ''mug'' None
            (answering with_key (payload (PList [])))) = Inl AttributeError
   \<and> fst (find_etsy_items example_python ''mug'' None
            (answering with_key (payload (PDict [(''results'', PList [PStr ''Mug''])])))) =
       Inl AttributeError"
  by (simp add: run_defs ex_defs)

section \<open>What the extractors return\<close>

lemma find_ebay_items_out:
  assumes "ebay_page q w = (Inr blocks, w1)"
    and "find_ebay_items py q mp w = (Inr out, w')"
  shows "out = appends (ebay_try py mp) blocks"
proof -
  obtain w2 where "for_try (\<lambda>e. e = AttributeError) ''Error parsing eBay item data: {}''
                     (ebay_try py mp) blocks [] w1 = (Inr out, w2)"
    using assms by (auto simp: find_ebay_items_def split: prod.splits sum.splits)
  then show ?thesis
    using for_try_Inr by fastforce
qed

lemma find_etsy_items_out:
  assumes "environ w ''ETSY_API_KEY'' = Some k" and "k \<noteq> []"
    and "etsy_data k q w = (Inr data, w1)"
    and "dict_get data ''results'' (PList []) = Inr results"
    and "py_iter results = Inr xs"
    and "find_etsy_items py q mp w = (Inr out, w')"
  shows "out = appends (etsy_try py mp) xs"
proof -
  obtain w2 where "for_try (\<lambda>e. e = TypeError \<or> e = ValueError) ''Error parsing Etsy item data: {}''
                     (etsy_try py mp) xs [] w1 = (Inr out, w2)"
    using assms by (auto simp: find_etsy_items_def split: prod.splits sum.splits)
  then show ?thesis
    using for_try_Inr by fastforce
qed

lemma ebay_try_ceiling:
  "ebay_try py mp b = Inr (Some r) \<longleftrightarrow>
     ebay_try py None b = Inr (Some r)
     \<and> (case mp of None \<Rightarrow> True | Some m \<Rightarrow> \<exists>p. ebay_price py b = Inr (Some p) \<and> p \<le> m)"
  by (cases mp)
     (auto simp: ebay_try_def ebay_keep_def split: option.splits sum.splits)

lemma etsy_try_ceiling:
  "etsy_try py mp x = Inr (Some r) \<longleftrightarrow>
     etsy_try py None x = Inr (Some r)
     \<and> (case mp of
          None \<Rightarrow> True
        | Some m \<Rightarrow> etsy_price x \<noteq> PStr ''N/A''
                    \<and> (\<exists>p. py_float py (etsy_price x) = Inr p \<and> p \<le> m))"
  by (cases mp)
     (auto simp: etsy_try_def etsy_keep_def etsy_price_def split: option.splits sum.splits if_splits)

lemma ebay_page_answering:
  "ebay_page q (answering env (page blocks)) =
     (Inr blocks, (answering env (page blocks))\<lparr>sent := [''https://www.ebay.com/sch/i.html?_nkw='' @ q]\<rparr>)"
  by (simp add: ebay_page_def fetch_url_def stop_max_attempt_number_def fetch_url_body_def
        requests_get_def raise_for_status_def answering_def page_def numeral_2_eq_2)

lemma etsy_data_answering:
  "etsy_data k q (answering env (payload data)) =
     (Inr data,
      (answering env (payload data))
        \<lparr>sent := [''https://openapi.etsy.com/v2/listings/active?api_key='' @ k
                     @ ''&keywords='' @ q @ ''&limit=10'']\<rparr>)"
  by (simp add: etsy_data_def fetch_url_def stop_max_attempt_number_def fetch_url_body_def
        requests_get_def raise_for_status_def answering_def payload_def numeral_2_eq_2)

section \<open>The price ceiling\<close>

text \<open>
  Claim C1 reads: with a ceiling, a record is in the output if and only if its numeric price
  is absent or at most the ceiling. The test of both extractors is
  \<^verbatim>\<open>max_price is None or (price is not None and price <= max_price)\<close> (for Etsy
  \<^verbatim>\<open>price != 'N/A' and float(price) <= max_price\<close>): under a ceiling an item without a
  numeric price is left out. The listing without a price node has no numeric price and
  yields a record when no ceiling is given, yet under the ceiling 50 the output is empty.
\<close>

theorem price_ceiling_counterexample:
  "ebay_price example_python lamp_no_price = Inr None
   \<and> ebay_try example_python None lamp_no_price =
       Inr (Some \<lparr>item_title = PStr ''Vintage Lamp'', item_price = PStr ''N/A'',
                  item_link = PStr ''http://x/1'', item_description = PStr ''N/A''\<rparr>)
   \<and> fst (find_ebay_items example_python ''lamp'' (Some 50)
            (answering Map.empty (page [lamp_no_price]))) = Inr []"
  by (simp add: run_defs ex_defs)


text \<open>
  Claim C1, amended. Whenever an extractor returns a list: with a ceiling \<open>m\<close>, a record is
  in the output if and only if it is the record of a successfully parsed listing (of a result
  object) whose numeric price is present and at most \<open>m\<close>; with no ceiling, if and only if
  it is the record of a successfully parsed one, whatever its price. The record of a
  successfully parsed element is what the body of the loop appends for it when no ceiling is
  given. For eBay the numeric price is \<open>ebay_price\<close>; for Etsy it is \<^verbatim>\<open>float\<close> of
  \<^verbatim>\<open>item.get('price', 'N/A')\<close>, absent for the sentinel \<^verbatim>\<open>'N/A'\<close>.
\<close>

theorem price_ceiling_inclusion:
  "(ebay_page q w = (Inr blocks, w1) \<and> find_ebay_items py q max_price w = (Inr out, w') \<longrightarrow>
      (r \<in> set out \<longleftrightarrow>
         (\<exists>b\<in>set blocks. ebay_try py None b = Inr (Some r)
            \<and> (case max_price of
                 None \<Rightarrow> True
               | Some m \<Rightarrow> \<exists>p. ebay_price py b = Inr (Some p) \<and> p \<le> m))))
   \<and> (environ v ''ETSY_API_KEY'' = Some k \<and> k \<noteq> [] \<and> etsy_data k q' v = (Inr data, v1)
       \<and> dict_get data ''results'' (PList []) = Inr results \<and> py_iter results = Inr xs
       \<and> find_etsy_items py q' max_price v = (Inr out', v') \<longrightarrow>
      (r' \<in> set out' \<longleftrightarrow>
         (\<exists>x\<in>set xs. etsy_try py None x = Inr (Some r')
            \<and> (case max_price of
                 None \<Rightarrow> True
               | Some m \<Rightarrow> etsy_price x \<noteq> PStr ''N/A''
                           \<and> (\<exists>p. py_float py (etsy_price x) = Inr p \<and> p \<le> m)))))"
proof (intro conjI impI)
  assume "ebay_page q w = (Inr blocks, w1) \<and> find_ebay_items py q max_price w = (Inr out, w')"
  then have "out = appends (ebay_try py max_price) blocks"
    using find_ebay_items_out by blast
  then show "r \<in> set out \<longleftrightarrow>
         (\<exists>b\<in>set blocks. ebay_try py None b = Inr (Some r)
            \<and> (case max_price of
                 None \<Rightarrow> True
               | Some m \<Rightarrow> \<exists>p. ebay_price py b = Inr (Some p) \<and> p \<le> m))"
    using ebay_try_ceiling [of py max_price _ r] by (simp add: set_appends)
next
  assume "environ v ''ETSY_API_KEY'' = Some k \<and> k \<noteq> [] \<and> etsy_data k q' v = (Inr data, v1)
       \<and> dict_get data ''results'' (PList []) = Inr results \<and> py_iter results = Inr xs
       \<and> find_etsy_items py q' max_price v = (Inr out', v')"
  then have "out' = appends (etsy_try py max_price) xs"
    using find_etsy_items_out by blast
  then show "r' \<in> set out' \<longleftrightarrow>
         (\<exists>x\<in>set xs. etsy_try py None x = Inr (Some r')
            \<and> (case max_price of
                 None \<Rightarrow> True
               | Some m \<Rightarrow> etsy_price x \<noteq> PStr ''N/A''
                           \<and> (\<exists>p. py_float py (etsy_price x) = Inr p \<and> p \<le> m)))"
    using etsy_try_ceiling [of py max_price _ r'] by (simp add: set_appends)
qed

theorem price_ceiling_inclusion_witness:
  "fst (find_ebay_items example_python ''lamp'' (Some 50)
          (answering Map.empty (page [lamp, lamp_no_price, lamp_no_title]))) =
     Inr [\<lparr>item_title = PStr ''Vintage Lamp'', item_price = PStr ''$45.00'',
           item_link = PStr ''http://x/1'', item_description = PStr ''N/A''\<rparr>]
   \<and> (\<exists>b\<in>set [lamp, lamp_no_price, lamp_no_title].
         ebay_try example_python None b =
           Inr (Some \<lparr>item_title = PStr ''Vintage Lamp'', item_price = PStr ''$45.00'',
                      item_link = PStr ''http://x/1'', item_description = PStr ''N/A''\<rparr>)
         \<and> (\<exists>p. ebay_price example_python b = Inr (Some p) \<and> p \<le> 50))
   \<and> fst (find_etsy_items example_python ''mug'' (Some 50)
            (answering with_key (payload (PDict [(''results'', PList [mug, mug_abc])])))) =
       Inr [\<lparr>item_title = PStr ''Mug'', item_price = PStr ''$12'',
             item_link = PStr ''http://y/2'', item_description = PStr ''N/A''\<rparr>]
   \<and> (\<exists>x\<in>set [mug, mug_abc].
         etsy_try example_python None x =
           Inr (Some \<lparr>item_title = PStr ''Mug'', item_price = PStr ''$12'',
                      item_link = PStr ''http://y/2'', item_description = PStr ''N/A''\<rparr>)
         \<and> etsy_price x \<noteq> PStr ''N/A''
         \<and> (\<exists>p. py_float example_python (etsy_price x) = Inr p \<and> p \<le> 50))"
proof -
  let ?w = "answering Map.empty (page [lamp, lamp_no_price, lamp_no_title])"
  let ?v = "answering with_key (payload (PDict [(''results'', PList [mug, mug_abc])]))"
  let ?lamp = "\<lparr>item_title = PStr ''Vintage Lamp'', item_price = PStr ''$45.00'',
           item_link = PStr ''http://x/1'', item_description = PStr ''N/A''\<rparr> :: rat item"
  let ?mug = "\<lparr>item_title = PStr ''Mug'', item_price = PStr ''$12'',
             item_link = PStr ''http://y/2'', item_description = PStr ''N/A''\<rparr> :: rat item"
  have e: "fst (find_ebay_items example_python ''lamp'' (Some 50) ?w) = Inr [?lamp]"
    by (simp add: run_defs ex_defs)
  then have e': "find_ebay_items example_python ''lamp'' (Some 50) ?w =
                   (Inr [?lamp], snd (find_ebay_items example_python ''lamp'' (Some 50) ?w))"
    by (metis prod.collapse)
  have t: "fst (find_etsy_items example_python ''mug'' (Some 50) ?v) = Inr [?mug]"
    by (simp add: run_defs ex_defs)
  then have t': "find_etsy_items example_python ''mug'' (Some 50) ?v =
                   (Inr [?mug], snd (find_etsy_items example_python ''mug'' (Some 50) ?v))"
    by (metis prod.collapse)
  have k: "environ ?v ''ETSY_API_KEY'' = Some ''k''" "''k'' \<noteq> []"
    by (simp_all add: answering_def with_key_def)
  have d: "dict_get (PDict [(''results'', PList [mug, mug_abc :: rat pyval])]) ''results'' (PList [])
             = Inr (PList [mug, mug_abc])"
          "py_iter (PList [mug, mug_abc :: rat pyval]) = Inr [mug, mug_abc]"
    by (simp_all add: dict_get_def py_iter_def)
  note inst = price_ceiling_inclusion
    [where py = example_python and max_price = "Some 50"
       and q = "''lamp''" and w = ?w and blocks = "[lamp, lamp_no_price, lamp_no_title]"
       and out = "[?lamp]" and r = ?lamp
       and q' = "''mug''" and v = ?v and k = "''k''" and xs = "[mug, mug_abc]"
       and data = "PDict [(''results'', PList [mug, mug_abc])]" and results = "PList [mug, mug_abc]"
       and out' = "[?mug]" and r' = ?mug]
  show ?thesis
    using inst e e' t t' k d ebay_page_answering etsy_data_answering
    by simp
qed


section \<open>The order of the output\<close>

lemma appends_subseq:
  "\<exists>kept. subseq kept xs \<and> list_all2 (\<lambda>x r. body x = Inr (Some r)) kept (appends body xs)"
proof (induction xs)
  case Nil
  show ?case by (simp add: appends_Nil)
next
  case (Cons x xs)
  then obtain kept where kept: "subseq kept xs"
      "list_all2 (\<lambda>x r. body x = Inr (Some r)) kept (appends body xs)"
    by blast
  show ?case
  proof (cases "\<exists>r. body x = Inr (Some r)")
    case True
    then obtain r where r: "body x = Inr (Some r)" by blast
    then have "subseq (x # kept) (x # xs)"
      and "list_all2 (\<lambda>x r. body x = Inr (Some r)) (x # kept) (appends body (x # xs))"
      using kept by (simp_all add: appends_Cons)
    then show ?thesis by blast
  next
    case False
    then have "appends body (x # xs) = appends body xs"
      by (auto simp: appends_Cons split: sum.splits option.splits)
    moreover have "subseq kept (x # xs)"
      using kept(1) by (rule list_emb_Cons)
    ultimately show ?thesis using kept(2) by auto
  qed
qed

text \<open>
  Claim C10. Both extractors preserve the order of their source: whenever an extractor
  returns a list, there is a subsequence of the listing blocks of the page (of the result
  objects of the payload), in their order, such that the records of the output are, one by
  one and in this order, the records the body of the loop appends for its elements.
\<close>

theorem extractors_preserve_order:
  "(ebay_page q w = (Inr blocks, w1) \<and> find_ebay_items py q max_price w = (Inr out, w') \<longrightarrow>
      (\<exists>kept. subseq kept blocks
         \<and> list_all2 (\<lambda>b r. ebay_try py max_price b = Inr (Some r)) kept out))
   \<and> (environ v ''ETSY_API_KEY'' = Some k \<and> k \<noteq> [] \<and> etsy_data k q' v = (Inr data, v1)
       \<and> dict_get data ''results'' (PList []) = Inr results \<and> py_iter results = Inr xs
       \<and> find_etsy_items py q' max_price v = (Inr out', v') \<longrightarrow>
      (\<exists>kept. subseq kept xs
         \<and> list_all2 (\<lambda>x r. etsy_try py max_price x = Inr (Some r)) kept out'))"
  using find_ebay_items_out [of q w blocks w1 py max_price out w']
    find_etsy_items_out [of v k q' data v1 results xs py max_price out' v']
    appends_subseq [of blocks "ebay_try py max_price"]
    appends_subseq [of xs "etsy_try py max_price"]
  by blast

theorem extractors_preserve_order_witness:
  "fst (find_ebay_items example_python ''lamp'' None
          (answering Map.empty (page [lamp_no_title, lamp, lamp_no_price]))) =
     Inr [\<lparr>item_title = PStr ''Vintage Lamp'', item_price = PStr ''$45.00'',
           item_link = PStr ''http://x/1'', item_description = PStr ''N/A''\<rparr>,
          \<lparr>item_title = PStr ''Vintage Lamp'', item_price = PStr ''N/A'',
           item_link = PStr ''http://x/1'', item_description = PStr ''N/A''\<rparr>]
   \<and> (\<exists>kept. subseq kept [lamp_no_title, lamp, lamp_no_price]
         \<and> list_all2 (\<lambda>b r. ebay_try example_python None b = Inr (Some r)) kept
              [\<lparr>item_title = PStr ''Vintage Lamp'', item_price = PStr ''$45.00'',
                item_link = PStr ''http://x/1'', item_description = PStr ''N/A''\<rparr>,
               \<lparr>item_title = PStr ''Vintage Lamp'', item_price = PStr ''N/A'',
                item_link = PStr ''http://x/1'', item_description = PStr ''N/A''\<rparr>])
   \<and> fst (find_etsy_items example_python ''mug'' None
            (answering with_key (payload (PDict [(''results'', PList [mug_abc, mug])])))) =
       Inr [\<lparr>item_title = PStr ''Mug'', item_price = PStr ''$abc'',
             item_link = PStr ''http://y/2'', item_description = PStr ''N/A''\<rparr>,
            \<lparr>item_title = PStr ''Mug'', item_price = PStr ''$12'',
             item_link = PStr ''http://y/2'', item_description = PStr ''N/A''\<rparr>]
   \<and> (\<exists>kept. subseq kept [mug_abc, mug]
         \<and> list_all2 (\<lambda>x r. etsy_try example_python None x = Inr (Some r)) kept
              [\<lparr>item_title = PStr ''Mug'', item_price = PStr ''$abc'',
                item_link = PStr ''http://y/2'', item_description = PStr ''N/A''\<rparr>,
               \<lparr>item_title = PStr ''Mug'', item_price = PStr ''$12'',
                item_link = PStr ''http://y/2'', item_description = PStr ''N/A''\<rparr>])"
proof -
  let ?w = "answering Map.empty (page [lamp_no_title, lamp, lamp_no_price])"
  let ?v = "answering with_key (payload (PDict [(''results'', PList [mug_abc, mug])]))"
  let ?out = "[\<lparr>item_title = PStr ''Vintage Lamp'', item_price = PStr ''$45.00'',
           item_link = PStr ''http://x/1'', item_description = PStr ''N/A''\<rparr>,
          \<lparr>item_title = PStr ''Vintage Lamp'', item_price = PStr ''N/A'',
           item_link = PStr ''http://x/1'', item_description = PStr ''N/A''\<rparr>] :: rat item list"
  let ?out' = "[\<lparr>item_title = PStr ''Mug'', item_price = PStr ''$abc'',
             item_link = PStr ''http://y/2'', item_description = PStr ''N/A''\<rparr>,
            \<lparr>item_title = PStr ''Mug'', item_price = PStr ''$12'',
             item_link = PStr ''http://y/2'', item_description = PStr ''N/A''\<rparr>] :: rat item list"
  have e: "fst (find_ebay_items example_python ''lamp'' None ?w) = Inr ?out"
    by (simp add: run_defs ex_defs)
  then have e': "find_ebay_items example_python ''lamp'' None ?w =
                   (Inr ?out, snd (find_ebay_items example_python ''lamp'' None ?w))"
    by (metis prod.collapse)
  have t: "fst (find_etsy_items example_python ''mug'' None ?v) = Inr ?out'"
    by (simp add: run_defs ex_defs)
  then have t': "find_etsy_items example_python ''mug'' None ?v =
                   (Inr ?out', snd (find_etsy_items example_python ''mug'' None ?v))"
    by (metis prod.collapse)
  have k: "environ ?v ''ETSY_API_KEY'' = Some ''k''" "''k'' \<noteq> []"
    by (simp_all add: answering_def with_key_def)
  have d: "dict_get (PDict [(''results'', PList [mug_abc, mug :: rat pyval])]) ''results'' (PList [])
             = Inr (PList [mug_abc, mug])"
          "py_iter (PList [mug_abc, mug :: rat pyval]) = Inr [mug_abc, mug]"
    by (simp_all add: dict_get_def py_iter_def)
  note inst = extractors_preserve_order
    [where py = example_python and max_price = None
       and q = "''lamp''" and w = ?w and blocks = "[lamp_no_title, lamp, lamp_no_price]"
       and out = ?out
       and q' = "''mug''" and v = ?v and k = "''k''" and xs = "[mug_abc, mug]"
       and data = "PDict [(''results'', PList [mug_abc, mug])]" and results = "PList [mug_abc, mug]"
       and out' = ?out']
  show ?thesis
    using inst e e' t t' k d ebay_page_answering etsy_data_answering
    by simp
qed


section \<open>The title of a record\<close>

lemma ebay_try_title:
  "ebay_try py mp b = Inr (Some r) \<Longrightarrow>
   \<exists>h3. find_h3_title b = Some h3 \<and> item_title r = PStr (get_text_strip h3)"
  by (auto simp: ebay_try_def split: option.splits sum.splits if_splits)

lemma etsy_try_title:
  "etsy_try py mp x = Inr (Some r) \<Longrightarrow>
   \<exists>kvs. x = PDict kvs
     \<and> item_title r = (case map_of kvs ''title'' of None \<Rightarrow> PStr ''N/A'' | Some t \<Rightarrow> t)"
  by (cases x)
     (auto simp: etsy_try_def dict_get_def split: option.splits sum.splits if_splits)

text \<open>
  Claim C8 reads: the title of every record is never the empty string. Neither extractor
  tests the title: a listing whose title node holds no text and a result object whose title
  is \<^verbatim>\<open>""\<close> both yield a record with the empty title.
\<close>

theorem title_counterexample:
  "fst (find_ebay_items example_python ''lamp'' None
          (answering Map.empty (page [lamp_empty_title]))) =
     Inr [\<lparr>item_title = PStr [], item_price = PStr ''$45.00'',
           item_link = PStr ''http://x/1'', item_description = PStr ''N/A''\<rparr>]
   \<and> fst (find_etsy_items example_python ''mug'' None
            (answering with_key
               (payload (PDict [(''results'',
                  PList [PDict [(''title'', PStr []), (''price'', PStr ''12'')]])])))) =
       Inr [\<lparr>item_title = PStr [], item_price = PStr ''$12'',
             item_link = PStr ''N/A'', item_description = PStr ''N/A''\<rparr>]"
  by (simp add: run_defs ex_defs)


text \<open>
  Claim C8, amended. Every record has a title, taken from its source as it is: a record of
  the eBay output is the record that the body of the loop appends for one of the listing
  blocks, and its title is \<^verbatim>\<open>get_text(strip=True)\<close> of the title node of that very block; a
  record of the Etsy output is the record appended for one of the result objects, and its
  title is the value under the key \<^verbatim>\<open>title\<close> of that very object, or \<^verbatim>\<open>'N/A'\<close> when the object
  has no such key. It is empty exactly when that text is.
\<close>

theorem title_from_source:
  "(ebay_page q w = (Inr blocks, w1) \<and> find_ebay_items py q max_price w = (Inr out, w') \<longrightarrow>
      (\<forall>r\<in>set out. \<exists>b\<in>set blocks. \<exists>h3.
          ebay_try py max_price b = Inr (Some r)
          \<and> find_h3_title b = Some h3 \<and> item_title r = PStr (get_text_strip h3)))
   \<and> (environ v ''ETSY_API_KEY'' = Some k \<and> k \<noteq> [] \<and> etsy_data k q' v = (Inr data, v1)
       \<and> dict_get data ''results'' (PList []) = Inr results \<and> py_iter results = Inr xs
       \<and> find_etsy_items py q' max_price v = (Inr out', v') \<longrightarrow>
      (\<forall>r\<in>set out'. \<exists>x\<in>set xs. \<exists>kvs.
          etsy_try py max_price x = Inr (Some r)
          \<and> x = PDict kvs
          \<and> item_title r = (case map_of kvs ''title'' of None \<Rightarrow> PStr ''N/A'' | Some t \<Rightarrow> t)))"
proof (intro conjI impI ballI)
  fix r
  assume "ebay_page q w = (Inr blocks, w1) \<and> find_ebay_items py q max_price w = (Inr out, w')"
    and "r \<in> set out"
  then have "r \<in> set (appends (ebay_try py max_price) blocks)"
    using find_ebay_items_out by blast
  then obtain b where b: "b \<in> set blocks" "ebay_try py max_price b = Inr (Some r)"
    by (auto simp: set_appends)
  then obtain h3 where "find_h3_title b = Some h3" "item_title r = PStr (get_text_strip h3)"
    using ebay_try_title by blast
  with b show "\<exists>b\<in>set blocks. \<exists>h3.
          ebay_try py max_price b = Inr (Some r)
          \<and> find_h3_title b = Some h3 \<and> item_title r = PStr (get_text_strip h3)"
    by blast
next
  fix r
  assume "environ v ''ETSY_API_KEY'' = Some k \<and> k \<noteq> [] \<and> etsy_data k q' v = (Inr data, v1)
       \<and> dict_get data ''results'' (PList []) = Inr results \<and> py_iter results = Inr xs
       \<and> find_etsy_items py q' max_price v = (Inr out', v')"
    and "r \<in> set out'"
  then have "r \<in> set (appends (etsy_try py max_price) xs)"
    using find_etsy_items_out by blast
  then obtain x where x: "x \<in> set xs" "etsy_try py max_price x = Inr (Some r)"
    by (auto simp: set_appends)
  then obtain kvs where "x = PDict kvs"
    "item_title r = (case map_of kvs ''title'' of None \<Rightarrow> PStr ''N/A'' | Some t \<Rightarrow> t)"
    using etsy_try_title by blast
  with x show "\<exists>x\<in>set xs. \<exists>kvs.
          etsy_try py max_price x = Inr (Some r)
          \<and> x = PDict kvs
          \<and> item_title r = (case map_of kvs ''title'' of None \<Rightarrow> PStr ''N/A'' | Some t \<Rightarrow> t)"
    by blast
qed

theorem title_from_source_witness:
  "fst (find_ebay_items example_python ''lamp'' None (answering Map.empty (page [lamp, desk]))) =
     Inr [\<lparr>item_title = PStr ''Vintage Lamp'', item_price = PStr ''$45.00'',
           item_link = PStr ''http://x/1'', item_description = PStr ''N/A''\<rparr>,
          \<lparr>item_title = PStr ''Desk'', item_price = PStr ''$9.00'',
           item_link = PStr ''http://x/3'', item_description = PStr ''Oak''\<rparr>]
   \<and> (\<exists>b\<in>set [lamp, desk]. \<exists>h3.
         ebay_try example_python None b =
           Inr (Some \<lparr>item_title = PStr ''Desk'', item_price = PStr ''$9.00'',
                      item_link = PStr ''http://x/3'', item_description = PStr ''Oak''\<rparr>)
         \<and> find_h3_title b = Some h3
         \<and> PStr ''Desk'' = (PStr (get_text_strip h3) :: rat pyval))
   \<and> fst (find_etsy_items example_python ''mug'' None
            (answering with_key (payload (PDict [(''results'', PList [mug, bowl])])))) =
       Inr [\<lparr>item_title = PStr ''Mug'', item_price = PStr ''$12'',
             item_link = PStr ''http://y/2'', item_description = PStr ''N/A''\<rparr>,
            \<lparr>item_title = PStr ''Bowl'', item_price = PStr ''$7.50'',
             item_link = PStr ''N/A'', item_description = PStr ''N/A''\<rparr>]
   \<and> (\<exists>x\<in>set [mug, bowl]. \<exists>kvs.
         etsy_try example_python None x =
           Inr (Some \<lparr>item_title = PStr ''Bowl'', item_price = PStr ''$7.50'',
                      item_link = PStr ''N/A'', item_description = PStr ''N/A''\<rparr>)
         \<and> x = PDict kvs
         \<and> (PStr ''Bowl'' :: rat pyval) =
             (case map_of kvs ''title'' of None \<Rightarrow> PStr ''N/A'' | Some t \<Rightarrow> t))"
proof -
  let ?w = "answering Map.empty (page [lamp, desk])"
  let ?data = "PDict [(''results'', PList [mug, bowl])] :: rat pyval"
  let ?v = "answering with_key (payload ?data)"
  let ?lamp = "\<lparr>item_title = PStr ''Vintage Lamp'', item_price = PStr ''$45.00'',
           item_link = PStr ''http://x/1'', item_description = PStr ''N/A''\<rparr> :: rat item"
  let ?desk = "\<lparr>item_title = PStr ''Desk'', item_price = PStr ''$9.00'',
           item_link = PStr ''http://x/3'', item_description = PStr ''Oak''\<rparr> :: rat item"
  let ?mug = "\<lparr>item_title = PStr ''Mug'', item_price = PStr ''$12'',
             item_link = PStr ''http://y/2'', item_description = PStr ''N/A''\<rparr> :: rat item"
  let ?bowl = "\<lparr>item_title = PStr ''Bowl'', item_price = PStr ''$7.50'',
             item_link = PStr ''N/A'', item_description = PStr ''N/A''\<rparr> :: rat item"
  have e: "fst (find_ebay_items example_python ''lamp'' None ?w) = Inr [?lamp, ?desk]"
    by (simp add: run_defs ex_defs)
  then have e': "find_ebay_items example_python ''lamp'' None ?w =
                   (Inr [?lamp, ?desk], snd (find_ebay_items example_python ''lamp'' None ?w))"
    by (metis prod.collapse)
  have t: "fst (find_etsy_items example_python ''mug'' None ?v) = Inr [?mug, ?bowl]"
    by (simp add: run_defs ex_defs)
  then have t': "find_etsy_items example_python ''mug'' None ?v =
                   (Inr [?mug, ?bowl], snd (find_etsy_items example_python ''mug'' None ?v))"
    by (metis prod.collapse)
  have k: "environ ?v ''ETSY_API_KEY'' = Some ''k''" "''k'' \<noteq> []"
    by (simp_all add: answering_def with_key_def)
  have d: "dict_get ?data ''results'' (PList []) = Inr (PList [mug, bowl])"
          "py_iter (PList [mug, bowl :: rat pyval]) = Inr [mug, bowl]"
    by (simp_all add: dict_get_def py_iter_def)
  note inst = title_from_source
    [where py = example_python and max_price = None
       and q = "''lamp''" and w = ?w and blocks = "[lamp, desk]" and out = "[?lamp, ?desk]"
       and q' = "''mug''" and v = ?v and k = "''k''" and xs = "[mug, bowl]"
       and data = ?data and results = "PList [mug, bowl]" and out' = "[?mug, ?bowl]"]
  have both: "(\<forall>r\<in>set [?lamp, ?desk]. \<exists>b\<in>set [lamp, desk]. \<exists>h3.
          ebay_try example_python None b = Inr (Some r)
          \<and> find_h3_title b = Some h3 \<and> item_title r = PStr (get_text_strip h3))
     \<and> (\<forall>r\<in>set [?mug, ?bowl]. \<exists>x\<in>set [mug, bowl]. \<exists>kvs.
          etsy_try example_python None x = Inr (Some r)
          \<and> x = PDict kvs
          \<and> item_title r = (case map_of kvs ''title'' of None \<Rightarrow> PStr ''N/A'' | Some t \<Rightarrow> t))"
    using inst e' t' k d ebay_page_answering [of "''lamp''" Map.empty "[lamp, desk]"]
      etsy_data_answering [of "''k''" "''mug''" with_key ?data]
    by blast
  have "\<exists>b\<in>set [lamp, desk]. \<exists>h3.
          ebay_try example_python None b = Inr (Some ?desk)
          \<and> find_h3_title b = Some h3 \<and> item_title ?desk = PStr (get_text_strip h3)"
    using both by (meson list.set_intros)
  moreover have "\<exists>x\<in>set [mug, bowl]. \<exists>kvs.
          etsy_try example_python None x = Inr (Some ?bowl)
          \<and> x = PDict kvs
          \<and> item_title ?bowl = (case map_of kvs ''title'' of None \<Rightarrow> PStr ''N/A'' | Some t \<Rightarrow> t)"
    using both by (meson list.set_intros)
  ultimately show ?thesis
    using e t by simp
qed

section \<open>Malformed listing blocks\<close>











section \<open>Prices that are not numbers\<close>

lemma etsy_try_price_error:
  "etsy_price_error py (PDict kvs) = Some e \<Longrightarrow> etsy_try py (Some m) (PDict kvs) = Inl e"
  by (auto simp: etsy_price_error_def etsy_price_def etsy_try_def etsy_keep_def dict_get_def
           split: option.splits sum.splits if_splits)

lemma etsy_try_price_ok:
  "etsy_price_error py (PDict kvs) = None \<Longrightarrow> \<exists>ro. etsy_try py (Some m) (PDict kvs) = Inr ro"
  by (auto simp: etsy_price_error_def etsy_price_def etsy_try_def etsy_keep_def dict_get_def
           split: option.splits sum.splits if_splits)

lemma etsy_try_no_ceiling:
  "\<exists>r. etsy_try py None (PDict kvs) = Inr (Some r)"
  by (auto simp: etsy_try_def etsy_keep_def dict_get_def split: option.splits)

lemma etsy_price_error_caught:
  "etsy_price_error py x = Some e \<Longrightarrow> e = TypeError \<or> e = ValueError \<or> e = OverflowError"
  by (cases "etsy_price x")
     (auto simp: etsy_price_error_def py_float_def split: option.splits if_splits)

lemma etsy_warnings:
  assumes "\<forall>x\<in>set xs. \<exists>kvs. x = PDict kvs"
  shows "warnings msg (etsy_try py (Some m)) xs =
           List.map_filter
             (\<lambda>x. map_option (\<lambda>e. Log WARNING msg (ExcArg e)) (etsy_price_error py x)) xs"
  using assms
proof (induction xs)
  case Nil
  show ?case by (simp add: warnings_Nil)
next
  case (Cons x xs)
  then obtain kvs where x: "x = PDict kvs" by auto
  have rest: "warnings msg (etsy_try py (Some m)) xs =
           List.map_filter
             (\<lambda>x. map_option (\<lambda>e. Log WARNING msg (ExcArg e)) (etsy_price_error py x)) xs"
    using Cons by simp
  show ?case
  proof (cases "etsy_price_error py x")
    case None
    then obtain ro where "etsy_try py (Some m) x = Inr ro"
      using etsy_try_price_ok x by blast
    with None rest show ?thesis
      by (simp add: warnings_Cons)
  next
    case (Some e)
    then have "etsy_try py (Some m) x = Inl e"
      using etsy_try_price_error x by blast
    with Some rest show ?thesis
      by (simp add: warnings_Cons)
  qed
qed

lemma etsy_no_ceiling_all:
  assumes "\<forall>x\<in>set xs. \<exists>kvs. x = PDict kvs"
  shows "warnings msg (etsy_try py None) xs = []"
    and "length (appends (etsy_try py None) xs) = length xs"
  using assms
proof (induction xs)
  case Nil
  {
    case 1 show ?case by (simp add: warnings_Nil)
  next
    case 2 show ?case by (simp add: appends_Nil)
  }
next
  case (Cons x xs)
  {
    case 1
    then obtain kvs where "x = PDict kvs" by auto
    then obtain r where "etsy_try py None x = Inr (Some r)"
      using etsy_try_no_ceiling by blast
    then show ?case using 1 Cons.IH(1) by (simp add: warnings_Cons)
  next
    case 2
    then obtain kvs where "x = PDict kvs" by auto
    then obtain r where "etsy_try py None x = Inr (Some r)"
      using etsy_try_no_ceiling by blast
    then show ?case using 2 Cons.IH(2) by (simp add: appends_Cons)
  }
qed


text \<open>
  Claim C4 reads: a result object whose price is neither \<^verbatim>\<open>'N/A'\<close> nor a number is left out
  of the output with a warning, whether or not a ceiling is given. The test of line 115
  starts with \<^verbatim>\<open>max_price is None or\<close>: without a ceiling \<^verbatim>\<open>float\<close> is never called. The
  object with the price \<^verbatim>\<open>abc\<close>, on which \<^verbatim>\<open>float\<close> raises \<^verbatim>\<open>ValueError\<close>, is in the output of
  a run without ceiling, with the price \<^verbatim>\<open>$abc\<close>, and the log holds no warning.
\<close>

lemma etsy_try_no_ceiling_price:
  "etsy_try py None (PDict kvs) = Inr (Some r) \<Longrightarrow>
   item_price r = PStr (''$'' @ fstring py (etsy_price (PDict kvs)))"
  by (auto simp: etsy_try_def etsy_keep_def etsy_price_def dict_get_def split: option.splits)

lemma etsy_no_ceiling_records:
  assumes "\<forall>x\<in>set xs. \<exists>kvs. x = PDict kvs"
  shows "list_all2
           (\<lambda>x r. etsy_try py None x = Inr (Some r)
                  \<and> item_price r = PStr (''$'' @ fstring py (etsy_price x)))
           xs (appends (etsy_try py None) xs)"
  using assms
proof (induction xs)
  case Nil
  show ?case by (simp add: appends_Nil)
next
  case (Cons x xs)
  then obtain kvs where x: "x = PDict kvs" by auto
  then obtain r where r: "etsy_try py None x = Inr (Some r)"
    using etsy_try_no_ceiling by blast
  then have "item_price r = PStr (''$'' @ fstring py (etsy_price x))"
    using etsy_try_no_ceiling_price x by blast
  with r show ?case
    using Cons by (simp add: appends_Cons)
qed

theorem etsy_unparsable_price_counterexample:
  "py_float example_python (PStr ''abc'') = Inl ValueError
   \<and> fst (find_etsy_items example_python ''mug'' None
            (answering with_key (payload (PDict [(''results'', PList [mug_abc])])))) =
       Inr [\<lparr>item_title = PStr ''Mug'', item_price = PStr ''$abc'',
             item_link = PStr ''http://y/2'', item_description = PStr ''N/A''\<rparr>]
   \<and> logged (snd (find_etsy_items example_python ''mug'' None
            (answering with_key (payload (PDict [(''results'', PList [mug_abc])]))))) =
       [Log INFO ''Found {} items on Etsy.'' (CountArg 1)]"
  by (simp add: run_defs ex_defs)


text \<open>
  Claim C4, amended. Take a payload whose results are objects, none with an integer price
  too large for a float. With a ceiling, \<^verbatim>\<open>find_etsy_items\<close> returns a list and logs one
  warning for every object whose price is not \<^verbatim>\<open>'N/A'\<close> and on which \<^verbatim>\<open>float\<close> raises
  (\<^verbatim>\<open>ValueError\<close> or \<^verbatim>\<open>TypeError\<close>), in their order and for no other object (so none for the
  price \<^verbatim>\<open>'N/A'\<close>, on which \<^verbatim>\<open>float\<close> would raise as well: it is not called); every record of
  the output comes from an object without such an error. With no ceiling no price is
  parsed: the function logs no warning and returns one record for every object, in their
  order, each the record the body of the loop appends for its object, with the display price
  \<^verbatim>\<open>$\<close> followed by the raw price.
\<close>

theorem etsy_unparsable_price:
  "environ v ''ETSY_API_KEY'' = Some k \<and> k \<noteq> [] \<and> etsy_data k q v = (Inr data, v1)
   \<and> dict_get data ''results'' (PList []) = Inr results \<and> py_iter results = Inr xs
   \<and> (\<forall>x\<in>set xs. \<exists>kvs. x = PDict kvs)
   \<and> (\<forall>x\<in>set xs. etsy_price_error py x \<noteq> Some OverflowError) \<longrightarrow>
     (\<exists>out.
        find_etsy_items py q (Some m) v =
          (Inr out,
           v1\<lparr>logged := logged v1
                  @ List.map_filter
                      (\<lambda>x. map_option
                             (\<lambda>e. Log WARNING ''Error parsing Etsy item data: {}'' (ExcArg e))
                             (etsy_price_error py x)) xs
                  @ [Log INFO ''Found {} items on Etsy.'' (CountArg (length out))]\<rparr>)
        \<and> (\<forall>r\<in>set out. \<exists>x\<in>set xs.
               etsy_price_error py x = None \<and> etsy_try py (Some m) x = Inr (Some r)))
     \<and> (\<exists>out.
          find_etsy_items py q None v =
            (Inr out,
             v1\<lparr>logged := logged v1
                    @ [Log INFO ''Found {} items on Etsy.'' (CountArg (length out))]\<rparr>)
          \<and> length out = length xs
          \<and> list_all2
                (\<lambda>x r. etsy_try py None x = Inr (Some r)
                       \<and> item_price r = PStr (''$'' @ fstring py (etsy_price x)))
                xs out)"
proof (intro impI)
  assume h: "environ v ''ETSY_API_KEY'' = Some k \<and> k \<noteq> [] \<and> etsy_data k q v = (Inr data, v1)
   \<and> dict_get data ''results'' (PList []) = Inr results \<and> py_iter results = Inr xs
   \<and> (\<forall>x\<in>set xs. \<exists>kvs. x = PDict kvs)
   \<and> (\<forall>x\<in>set xs. etsy_price_error py x \<noteq> Some OverflowError)"
  then have dicts: "\<forall>x\<in>set xs. \<exists>kvs. x = PDict kvs"
    and no_overflow: "\<forall>x\<in>set xs. etsy_price_error py x \<noteq> Some OverflowError"
    by simp_all
  let ?msg = "''Error parsing Etsy item data: {}''"
  let ?caught = "\<lambda>e. e = TypeError \<or> e = ValueError"
  have caught: "\<forall>x\<in>set xs. \<forall>e. etsy_try py (Some m) x = Inl e \<longrightarrow> ?caught e"
  proof (intro ballI allI impI)
    fix x e
    assume x: "x \<in> set xs" and e: "etsy_try py (Some m) x = Inl e"
    then obtain kvs where kvs: "x = PDict kvs" using dicts by auto
    show "e = TypeError \<or> e = ValueError"
    proof (cases "etsy_price_error py x")
      case None
      then show ?thesis
        using etsy_try_price_ok [of py kvs m] e kvs by auto
    next
      case (Some e')
      then have "e = e'"
        using etsy_try_price_error [of py kvs e' m] e kvs by simp
      moreover have "e' \<noteq> OverflowError"
        using Some no_overflow x by auto
      ultimately show ?thesis
        using etsy_price_error_caught [OF Some] by simp
    qed
  qed
  have caught_None: "\<forall>x\<in>set xs. \<forall>e. etsy_try py None x = Inl e \<longrightarrow> ?caught e"
  proof (intro ballI allI impI)
    fix x e
    assume x: "x \<in> set xs" and e: "etsy_try py None x = Inl e"
    then obtain kvs where "x = PDict kvs" using dicts by auto
    then show "e = TypeError \<or> e = ValueError"
      using etsy_try_no_ceiling [of py kvs] e by auto
  qed
  let ?out = "appends (etsy_try py (Some m)) xs"
  have "find_etsy_items py q (Some m) v =
          (Inr ?out,
           v1\<lparr>logged := logged v1
                  @ List.map_filter
                      (\<lambda>x. map_option (\<lambda>e. Log WARNING ?msg (ExcArg e)) (etsy_price_error py x)) xs
                  @ [Log INFO ''Found {} items on Etsy.'' (CountArg (length ?out))]\<rparr>)"
    using h for_try_total [OF caught, of ?msg "[]" v1] etsy_warnings [OF dicts, of ?msg py m]
    by (simp add: find_etsy_items_def logging_def)
  moreover have "\<forall>r\<in>set ?out. \<exists>x\<in>set xs.
               etsy_price_error py x = None \<and> etsy_try py (Some m) x = Inr (Some r)"
  proof
    fix r
    assume "r \<in> set ?out"
    then obtain x where x: "x \<in> set xs" and r: "etsy_try py (Some m) x = Inr (Some r)"
      by (auto simp: set_appends)
    obtain kvs where kvs: "x = PDict kvs" using x dicts by auto
    have "etsy_price_error py x = None"
    proof (cases "etsy_price_error py x")
      case None
      then show ?thesis .
    next
      case (Some e')
      then show ?thesis
        using etsy_try_price_error [of py kvs e' m] r kvs by simp
    qed
    with x r show "\<exists>x\<in>set xs.
               etsy_price_error py x = None \<and> etsy_try py (Some m) x = Inr (Some r)"
      by blast
  qed
  moreover
  let ?all = "appends (etsy_try py None) xs"
  have "find_etsy_items py q None v =
            (Inr ?all,
             v1\<lparr>logged := logged v1
                    @ [Log INFO ''Found {} items on Etsy.'' (CountArg (length ?all))]\<rparr>)"
    using h for_try_total [OF caught_None, of ?msg "[]" v1] etsy_no_ceiling_all(1) [OF dicts, of ?msg py]
    by (simp add: find_etsy_items_def logging_def)
  moreover have "length ?all = length xs"
    using etsy_no_ceiling_all(2) [OF dicts] .
  moreover have "list_all2
                (\<lambda>x r. etsy_try py None x = Inr (Some r)
                       \<and> item_price r = PStr (''$'' @ fstring py (etsy_price x)))
                xs ?all"
    using etsy_no_ceiling_records [OF dicts] .
  ultimately show "(\<exists>out.
        find_etsy_items py q (Some m) v =
          (Inr out,
           v1\<lparr>logged := logged v1
                  @ List.map_filter
                      (\<lambda>x. map_option
                             (\<lambda>e. Log WARNING ''Error parsing Etsy item data: {}'' (ExcArg e))
                             (etsy_price_error py x)) xs
                  @ [Log INFO ''Found {} items on Etsy.'' (CountArg (length out))]\<rparr>)
        \<and> (\<forall>r\<in>set out. \<exists>x\<in>set xs.
               etsy_price_error py x = None \<and> etsy_try py (Some m) x = Inr (Some r)))
     \<and> (\<exists>out.
          find_etsy_items py q None v =
            (Inr out,
             v1\<lparr>logged := logged v1
                    @ [Log INFO ''Found {} items on Etsy.'' (CountArg (length out))]\<rparr>)
          \<and> length out = length xs
          \<and> list_all2
                (\<lambda>x r. etsy_try py None x = Inr (Some r)
                       \<and> item_price r = PStr (''$'' @ fstring py (etsy_price x)))
                xs out)"
    by blast
qed

theorem etsy_unparsable_price_witness:
  "(\<exists>out.
      find_etsy_items example_python ''mug'' (Some 50)
        (answering with_key (payload (PDict [(''results'', PList [mug_abc, mug])]))) =
        (Inr out,
         (answering with_key (payload (PDict [(''results'', PList [mug_abc, mug])])))
           \<lparr>sent :=
              [''https://openapi.etsy.com/v2/listings/active?api_key=k&keywords=mug&limit=10''],
            logged :=
              [Log WARNING ''Error parsing Etsy item data: {}'' (ExcArg ValueError),
               Log INFO ''Found {} items on Etsy.'' (CountArg (length out))]\<rparr>))
   \<and> (\<exists>out.
        find_etsy_items example_python ''mug'' None
          (answering with_key (payload (PDict [(''results'', PList [mug_abc, mug])]))) =
          (Inr out,
           (answering with_key (payload (PDict [(''results'', PList [mug_abc, mug])])))
             \<lparr>sent :=
                [''https://openapi.etsy.com/v2/listings/active?api_key=k&keywords=mug&limit=10''],
              logged := [Log INFO ''Found {} items on Etsy.'' (CountArg (length out))]\<rparr>)
        \<and> length out = 2
        \<and> map item_price out = [PStr ''$abc'', PStr ''$12''])"
proof -
  let ?data = "PDict [(''results'', PList [mug_abc, mug])] :: rat pyval"
  let ?v = "answering with_key (payload ?data)"
  let ?v1 = "?v\<lparr>sent :=
    [''https://openapi.etsy.com/v2/listings/active?api_key=k&keywords=mug&limit=10'']\<rparr>"
  have k: "environ ?v ''ETSY_API_KEY'' = Some ''k''" "''k'' \<noteq> []"
    by (simp_all add: answering_def with_key_def)
  have d: "dict_get ?data ''results'' (PList []) = Inr (PList [mug_abc, mug])"
          "py_iter (PList [mug_abc, mug :: rat pyval]) = Inr [mug_abc, mug]"
    by (simp_all add: dict_get_def py_iter_def)
  have f: "etsy_data ''k'' ''mug'' ?v = (Inr ?data, ?v1)"
    using etsy_data_answering [of "''k''" "''mug''" with_key ?data] by simp
  have p: "etsy_price_error example_python (mug_abc :: rat pyval) = Some ValueError"
          "etsy_price_error example_python (mug :: rat pyval) = None"
    by (simp_all add: etsy_price_error_def etsy_price_def dict_get_def py_float_def ex_defs)
  have x: "\<forall>x\<in>set [mug_abc, mug :: rat pyval]. \<exists>kvs. x = PDict kvs"
    by (simp add: mug_def mug_abc_def)
  have o: "\<forall>x\<in>set [mug_abc, mug :: rat pyval]. etsy_price_error example_python x \<noteq> Some OverflowError"
    using p by simp
  note inst = etsy_unparsable_price
    [where py = example_python and q = "''mug''" and v = ?v and k = "''k''" and data = ?data
       and ?v1.0 = ?v1 and results = "PList [mug_abc, mug]" and xs = "[mug_abc, mug]" and m = 50]
  have pr: "\<And>out. list_all2
                (\<lambda>x r. etsy_try example_python None x = Inr (Some r)
                       \<and> item_price r = PStr (''$'' @ fstring example_python (etsy_price x)))
                [mug_abc, mug :: rat pyval] out \<Longrightarrow>
              map item_price out = [PStr ''$abc'', PStr ''$12'']"
    by (auto simp: list_all2_Cons1 etsy_price_def dict_get_def fstring_def mug_def mug_abc_def)
  show ?thesis
    using inst k d f p x o pr
    by (simp add: answering_def numeral_2_eq_2) blast
qed



section \<open>The commit on exit\<close>

lemma snapshot_logging: "snapshot self (logging lvl msg arg w) = snapshot self w"
  by (simp add: snapshot_def logging_def split: option.splits)

lemma snapshot_transaction: "snapshot (self\<lparr>transaction := Some d\<rparr>) w = d"
  by (simp add: snapshot_def)

lemma setup_database_open:
  assumes "\<not> is_closed self" and "setup_database self w = (r, self', w')"
  shows "r = Inr () \<and> \<not> is_closed self'
         \<and> snapshot self' w' = create_table_if_not_exists ''listings'' listings_columns (snapshot self w)"
  using assms
  by (auto simp: setup_database_def snapshot_def logging_def Let_def split: option.splits)

lemma save_to_database_open:
  assumes "\<not> is_closed self"
    and "save_to_database self platform title price link description notes w = (r, self', w')"
  shows "\<not> is_closed self'
         \<and> (case insert_into ''listings'' [platform, title, price, link, description, notes]
                   (snapshot self w) of
              Inl e \<Rightarrow> r = Inl e \<and> snapshot self' w' = snapshot self w
            | Inr d \<Rightarrow> r = Inr () \<and> snapshot self' w' = d)"
  using assms
  by (cases "insert_into ''listings'' [platform, title, price, link, description, notes]
               (snapshot self w)")
     (auto simp: save_to_database_def Let_def snapshot_logging snapshot_transaction
           split: if_splits)

lemma db_calls_written:
  "\<not> is_closed self \<Longrightarrow> db_calls cs self w = (r, self', w') \<Longrightarrow>
   \<not> is_closed self' \<and> snapshot self' w' = written cs (snapshot self w)"
proof (induction cs arbitrary: self w)
  case Nil
  then show ?case by simp
next
  case (Cons c cs)
  show ?case
  proof (cases c)
    case Setup
    obtain r1 s1 w1 where s: "setup_database self w = (r1, s1, w1)"
      by (metis prod_cases3)
    then have o: "r1 = Inr () \<and> \<not> is_closed s1
         \<and> snapshot s1 w1 = create_table_if_not_exists ''listings'' listings_columns (snapshot self w)"
      using setup_database_open [OF Cons.prems(1)] by blast
    then have "db_calls cs s1 w1 = (r, self', w')"
      using Cons.prems(2) Setup s by simp
    then show ?thesis
      using Cons.IH [of s1 w1] o Setup by simp
  next
    case (Save platform title price link description nts)
    obtain r1 s1 w1 where s:
      "save_to_database self platform title price link description nts w = (r1, s1, w1)"
      by (metis prod_cases3)
    note o = save_to_database_open [OF Cons.prems(1) s]
    show ?thesis
    proof (cases "insert_into ''listings'' [platform, title, price, link, description, nts]
                   (snapshot self w)")
      case (Inl e)
      then have "r1 = Inl e" "snapshot s1 w1 = snapshot self w" "\<not> is_closed s1"
        using o by simp_all
      moreover from this have "self' = s1" "w' = w1"
        using Cons.prems(2) Save s by simp_all
      ultimately show ?thesis
        using Save Inl by simp
    next
      case (Inr d)
      then have r1: "r1 = Inr ()" "snapshot s1 w1 = d" "\<not> is_closed s1"
        using o by simp_all
      then have "db_calls cs s1 w1 = (r, self', w')"
        using Cons.prems(2) Save s by simp
      then show ?thesis
        using Cons.IH [of s1 w1] r1 Save Inr by simp
    qed
  qed
qed

lemmas db_defs = with_DatabaseManager_def DatabaseManager_enter_def DatabaseManager_exit_def
  setup_database_def save_to_database_def snapshot_def create_table_if_not_exists_def
  insert_into_def listings_columns_def logging_def Let_def

text \<open>
  Claim C6. On exit of the scoped handle the accumulated writes are committed
  unconditionally. First, for \<^verbatim>\<open>__exit__\<close> itself on an open connection: whether an exception
  is passed or not, it returns normally, the database file then holds what the connection
  saw inside its transaction, no transaction is left open and the connection is closed; an
  exception adds one error line to the log and nothing else. Second, for a whole \<^verbatim>\<open>with\<close>
  block of calls on the store: after it the file holds the writes of all the calls up to
  the first one that failed, and when a call failed the error is in the log (and goes on
  to the caller).
\<close>

theorem exit_commits:
  "(\<not> is_closed self \<longrightarrow>
      (\<exists>self' w'.
         DatabaseManager_exit self exc_val w = (Inr (), self', w')
         \<and> disk w' = snapshot self w \<and> transaction self' = None \<and> is_closed self'
         \<and> logged w' =
             logged w @ (case exc_val of
                           None \<Rightarrow> []
                         | Some e \<Rightarrow> [Log ERROR ''Database operation failed'' (ExcArg e)])))
   \<and> (with_DatabaseManager (db_calls cs) u = (r, u') \<longrightarrow>
        disk u' = written cs (disk u)
        \<and> (\<forall>e. r = Inl e \<longrightarrow>
               Log ERROR ''Database operation failed'' (ExcArg e) \<in> set (logged u')))"
proof (intro conjI impI)
  assume "\<not> is_closed self"
  then show "\<exists>self' w'.
         DatabaseManager_exit self exc_val w = (Inr (), self', w')
         \<and> disk w' = snapshot self w \<and> transaction self' = None \<and> is_closed self'
         \<and> logged w' =
             logged w @ (case exc_val of
                           None \<Rightarrow> []
                         | Some e \<Rightarrow> [Log ERROR ''Database operation failed'' (ExcArg e)])"
    by (cases exc_val)
       (simp_all add: DatabaseManager_exit_def snapshot_def logging_def Let_def
          split: option.splits)
next
  assume run: "with_DatabaseManager (db_calls cs) u = (r, u')"
  obtain r1 s1 u1 where body: "db_calls cs DatabaseManager_enter u = (r1, s1, u1)"
    by (metis prod_cases3)
  have opened: "\<not> is_closed DatabaseManager_enter"
    and start: "snapshot DatabaseManager_enter u = disk u"
    by (simp_all add: DatabaseManager_enter_def snapshot_def)
  have after: "\<not> is_closed s1" "snapshot s1 u1 = written cs (disk u)"
    using db_calls_written [OF opened body] start by simp_all
  have "r = r1"
    and "disk u' = snapshot s1 u1"
    and "\<forall>e. r1 = Inl e \<longrightarrow> Log ERROR ''Database operation failed'' (ExcArg e) \<in> set (logged u')"
    using run body after(1)
    by (auto simp: with_DatabaseManager_def DatabaseManager_exit_def snapshot_def logging_def
             Let_def split: sum.splits option.splits)
  then show "disk u' = written cs (disk u)"
    and "\<forall>e. r = Inl e \<longrightarrow> Log ERROR ''Database operation failed'' (ExcArg e) \<in> set (logged u')"
    using after(2) by simp_all
qed

theorem exit_commits_witness:
  "fst (with_DatabaseManager
          (db_calls
             [Setup,
              Save (Some ''Ebay'') (Some ''Vintage Lamp'') (Some ''$45.00'') (Some ''http://x/1'')
                (Some ''N/A'') (Some ''for the hall''),
              Save (Some ''Ebay'') None (Some ''$5.00'') (Some ''http://x/2'') (Some ''N/A'') (Some []),
              Save (Some ''Ebay'') (Some ''Desk'') (Some ''$9.00'') (Some ''http://x/3'')
                (Some ''N/A'') (Some [])])
          (answering Map.empty (page []))) = Inl IntegrityError
   \<and> disk (snd (with_DatabaseManager
          (db_calls
             [Setup,
              Save (Some ''Ebay'') (Some ''Vintage Lamp'') (Some ''$45.00'') (Some ''http://x/1'')
                (Some ''N/A'') (Some ''for the hall''),
              Save (Some ''Ebay'') None (Some ''$5.00'') (Some ''http://x/2'') (Some ''N/A'') (Some []),
              Save (Some ''Ebay'') (Some ''Desk'') (Some ''$9.00'') (Some ''http://x/3'')
                (Some ''N/A'') (Some [])])
          (answering Map.empty (page [])))) =
       [(''listings'',
         \<lparr>columns = listings_columns,
          rows = [(1, [Some ''Ebay'', Some ''Vintage Lamp'', Some ''$45.00'', Some ''http://x/1'',
                       Some ''N/A'', Some ''for the hall''])],
          seq = 1\<rparr>)]
   \<and> Log ERROR ''Database operation failed'' (ExcArg IntegrityError)
       \<in> set (logged (snd (with_DatabaseManager
          (db_calls
             [Setup,
              Save (Some ''Ebay'') (Some ''Vintage Lamp'') (Some ''$45.00'') (Some ''http://x/1'')
                (Some ''N/A'') (Some ''for the hall''),
              Save (Some ''Ebay'') None (Some ''$5.00'') (Some ''http://x/2'') (Some ''N/A'') (Some []),
              Save (Some ''Ebay'') (Some ''Desk'') (Some ''$9.00'') (Some ''http://x/3'')
                (Some ''N/A'') (Some [])])
          (answering Map.empty (page [])))))
   \<and> (\<exists>self' w'.
         DatabaseManager_exit \<lparr>transaction = Some [], is_closed = False\<rparr> (Some IntegrityError)
           ((answering Map.empty (page []))\<lparr>disk := [(''old'', \<lparr>columns = [], rows = [], seq = 0\<rparr>)]\<rparr>)
           = (Inr (), self', w')
         \<and> disk w' = [] \<and> is_closed self')"
proof -
  let ?cs = "[Setup,
              Save (Some ''Ebay'') (Some ''Vintage Lamp'') (Some ''$45.00'') (Some ''http://x/1'')
                (Some ''N/A'') (Some ''for the hall''),
              Save (Some ''Ebay'') None (Some ''$5.00'') (Some ''http://x/2'') (Some ''N/A'') (Some []),
              Save (Some ''Ebay'') (Some ''Desk'') (Some ''$9.00'') (Some ''http://x/3'')
                (Some ''N/A'') (Some [])]"
  let ?u = "answering Map.empty (page [])"
  let ?run = "with_DatabaseManager (db_calls ?cs) ?u"
  let ?self = "\<lparr>transaction = Some [], is_closed = False\<rparr>"
  let ?w = "?u\<lparr>disk := [(''old'', \<lparr>columns = [], rows = [], seq = 0\<rparr>)]\<rparr>"
  have r: "fst ?run = Inl IntegrityError"
    by (simp add: db_defs answering_def)
  then have run: "?run = (Inl IntegrityError, snd ?run)"
    by (metis prod.collapse)
  have wr: "written ?cs (disk ?u) =
       [(''listings'',
         \<lparr>columns = listings_columns,
          rows = [(1, [Some ''Ebay'', Some ''Vintage Lamp'', Some ''$45.00'', Some ''http://x/1'',
                       Some ''N/A'', Some ''for the hall''])],
          seq = 1\<rparr>)]"
    by (simp add: create_table_if_not_exists_def insert_into_def answering_def)
       (simp add: listings_columns_def)
  have o: "\<not> is_closed ?self" and sn: "snapshot ?self ?w = []"
    by (simp_all add: snapshot_def)
  note inst = exit_commits
    [where cs = ?cs and u = ?u and r = "Inl IntegrityError" and u' = "snd ?run"
       and self = ?self and exc_val = "Some IntegrityError" and w = ?w]
  show ?thesis
    using inst r run wr o sn by simp blast
qed


section \<open>The schema\<close>

lemma create_table_idem:
  "create_table_if_not_exists n c (create_table_if_not_exists n c d) =
     create_table_if_not_exists n c d"
  by (simp add: create_table_if_not_exists_def)

lemma create_table_distinct:
  "distinct (map fst d) \<Longrightarrow> distinct (map fst (create_table_if_not_exists n c d))"
  by (simp add: create_table_if_not_exists_def)

lemma create_table_member: "n \<in> set (map fst (create_table_if_not_exists n c d))"
  by (simp add: create_table_if_not_exists_def)

lemma distinct_count_one:
  "distinct (map fst d) \<Longrightarrow> n \<in> set (map fst d) \<Longrightarrow>
   length (filter (\<lambda>nt. fst nt = n) d) = 1"
proof (induction d)
  case Nil
  then show ?case by simp
next
  case (Cons a d)
  show ?case
  proof (cases "fst a = n")
    case True
    then have "n \<notin> set (map fst d)" using Cons.prems(1) by auto
    then have "filter (\<lambda>nt. fst nt = n) d = []"
      by (auto simp: filter_empty_conv)
    with True show ?thesis by simp
  next
    case False
    then show ?thesis using Cons by auto
  qed
qed

text \<open>
  Claim C7. Schema creation is idempotent: the second of two consecutive calls of
  \<^verbatim>\<open>setup_database\<close> returns what the first returned and leaves the connection, the
  database file and the content the connection sees as the first call left them. On an
  open connection neither call raises, and in a database whose table names are distinct
  they stay distinct, with exactly one table \<^verbatim>\<open>listings\<close>. (Each call writes its own line to
  the log, which is not part of the store.)
\<close>

theorem setup_database_idempotent:
  "setup_database self w = (r1, s1, w1) \<and> setup_database s1 w1 = (r2, s2, w2) \<longrightarrow>
     r2 = r1 \<and> s2 = s1 \<and> disk w2 = disk w1 \<and> snapshot s2 w2 = snapshot s1 w1
     \<and> (\<not> is_closed self \<longrightarrow>
          r1 = Inr ()
          \<and> (distinct (map fst (snapshot self w)) \<longrightarrow>
               distinct (map fst (snapshot s2 w2))
               \<and> length (filter (\<lambda>nt. fst nt = ''listings'') (snapshot s2 w2)) = 1))"
proof (intro impI)
  assume h: "setup_database self w = (r1, s1, w1) \<and> setup_database s1 w1 = (r2, s2, w2)"
  have same: "r2 = r1 \<and> s2 = s1 \<and> disk w2 = disk w1 \<and> snapshot s2 w2 = snapshot s1 w1"
    using h
    by (auto simp: setup_database_def snapshot_def logging_def Let_def create_table_idem
             split: option.splits if_splits)
  have "\<not> is_closed self \<longrightarrow>
          r1 = Inr ()
          \<and> (distinct (map fst (snapshot self w)) \<longrightarrow>
               distinct (map fst (snapshot s2 w2))
               \<and> length (filter (\<lambda>nt. fst nt = ''listings'') (snapshot s2 w2)) = 1)"
  proof (intro impI conjI)
    assume o: "\<not> is_closed self"
    then have one: "r1 = Inr () \<and> \<not> is_closed s1
         \<and> snapshot s1 w1 = create_table_if_not_exists ''listings'' listings_columns (snapshot self w)"
      using setup_database_open h by blast
    then show "r1 = Inr ()" by simp
    assume d: "distinct (map fst (snapshot self w))"
    have "snapshot s2 w2 = snapshot s1 w1"
      using same by blast
    also have "\<dots> = create_table_if_not_exists ''listings'' listings_columns (snapshot self w)"
      using one by blast
    finally have s: "snapshot s2 w2 =
        create_table_if_not_exists ''listings'' listings_columns (snapshot self w)" .
    show "distinct (map fst (snapshot s2 w2))"
      using s create_table_distinct [OF d] by simp
    then show "length (filter (\<lambda>nt. fst nt = ''listings'') (snapshot s2 w2)) = 1"
      using distinct_count_one [of "snapshot s2 w2" "''listings''"] s create_table_member
      by simp
  qed
  with same show "r2 = r1 \<and> s2 = s1 \<and> disk w2 = disk w1 \<and> snapshot s2 w2 = snapshot s1 w1
     \<and> (\<not> is_closed self \<longrightarrow>
          r1 = Inr ()
          \<and> (distinct (map fst (snapshot self w)) \<longrightarrow>
               distinct (map fst (snapshot s2 w2))
               \<and> length (filter (\<lambda>nt. fst nt = ''listings'') (snapshot s2 w2)) = 1))"
    by blast
qed


theorem setup_database_idempotent_witness:
  "setup_database DatabaseManager_enter (answering Map.empty (page [])) =
     (Inr (), DatabaseManager_enter,
      (answering Map.empty (page []))
        \<lparr>logged := [Log INFO ''Setting up the database.'' NoArg],
         disk := [(''listings'', \<lparr>columns = listings_columns, rows = [], seq = 0\<rparr>)]\<rparr>)
   \<and> setup_database DatabaseManager_enter
        ((answering Map.empty (page []))
           \<lparr>logged := [Log INFO ''Setting up the database.'' NoArg],
            disk := [(''listings'', \<lparr>columns = listings_columns, rows = [], seq = 0\<rparr>)]\<rparr>) =
     (Inr (), DatabaseManager_enter,
      (answering Map.empty (page []))
        \<lparr>logged := [Log INFO ''Setting up the database.'' NoArg,
                     Log INFO ''Setting up the database.'' NoArg],
         disk := [(''listings'', \<lparr>columns = listings_columns, rows = [], seq = 0\<rparr>)]\<rparr>)
   \<and> length (filter (\<lambda>nt. fst nt = ''listings'')
               [(''listings'', \<lparr>columns = listings_columns, rows = [], seq = 0\<rparr>)]) = 1"
proof -
  let ?w = "answering Map.empty (page [])"
  let ?t = "[(''listings'', \<lparr>columns = listings_columns, rows = [], seq = 0\<rparr>)]"
  let ?w1 = "?w\<lparr>logged := [Log INFO ''Setting up the database.'' NoArg], disk := ?t\<rparr>"
  let ?w2 = "?w\<lparr>logged := [Log INFO ''Setting up the database.'' NoArg,
                     Log INFO ''Setting up the database.'' NoArg], disk := ?t\<rparr>"
  have a: "setup_database DatabaseManager_enter ?w = (Inr (), DatabaseManager_enter, ?w1)"
    by (simp add: setup_database_def DatabaseManager_enter_def create_table_if_not_exists_def
          logging_def answering_def)
  have b: "setup_database DatabaseManager_enter ?w1 = (Inr (), DatabaseManager_enter, ?w2)"
    by (simp add: setup_database_def DatabaseManager_enter_def create_table_if_not_exists_def
          logging_def answering_def)
  have c: "\<not> is_closed DatabaseManager_enter" "snapshot DatabaseManager_enter ?w = []"
    "snapshot DatabaseManager_enter ?w2 = ?t"
    by (simp_all add: DatabaseManager_enter_def snapshot_def answering_def)
  note inst = setup_database_idempotent
    [where self = DatabaseManager_enter and w = ?w and ?r1.0 = "Inr ()"
       and ?s1.0 = DatabaseManager_enter and ?w1.0 = ?w1 and ?r2.0 = "Inr ()"
       and ?s2.0 = DatabaseManager_enter and ?w2.0 = ?w2]
  show ?thesis
    using inst a b c by simp
qed


end
